theory Spec2Isabelle
  imports Complex_Main
begin

section \<open>JavaScript values and the runtime's built-ins\<close>

text \<open>
  The proxy works on whatever \<open>request.json()\<close> and \<open>response.json()\<close> return, typed
  \<open>any\<close> in the TypeScript source. A value is therefore modelled as the run-time value
  it is. Objects are association lists in property order (the first binding of a key is
  the property). Finite numbers are rationals: the code tests them for zero, compares a
  length with zero and copies them, and does no other arithmetic on them. \<open>JNative\<close>
  stands for a built-in function or object of the runtime, which is what a lookup of an
  inherited property such as \<open>toString\<close> finds. A string is a list of characters of
  the 8-bit range, and so are the texts of requests and responses.
\<close>

datatype jsval =
    JUndefined
  | JNull
  | JBool bool
  | JNum rat
  | JNaN
  | JStr string
  | JArr "jsval list"
  | JObj "(string \<times> jsval) list"
  | JNative string

datatype error =
    TypeError
  | SyntaxError
  | RangeError
  | NetworkError
  | Error string

text \<open>
  What the code calls and does not define: \<open>JSON.parse\<close> (\<open>None\<close> when it throws a
  SyntaxError), \<open>JSON.stringify\<close> (\<open>None\<close> when it returns \<open>undefined\<close>), the
  conversions of a number to a string and of a string to a number (\<open>None\<close> for NaN), the
  message text of a built-in error, and the draws of
  \<open>Math.random().toString(36).slice(2)\<close>, one string for each call site.
\<close>

record runtime =
  json_parse :: "string \<Rightarrow> jsval option"
  json_stringify :: "jsval \<Rightarrow> string option"
  number_toString :: "rat \<Rightarrow> string"
  string_toNumber :: "string \<Rightarrow> rat option"
  builtin_message :: "error \<Rightarrow> string"
  random_id :: "nat \<Rightarrow> string"

fun truthy :: "jsval \<Rightarrow> bool" where
  "truthy JUndefined = False"
| "truthy JNull = False"
| "truthy (JBool b) = b"
| "truthy (JNum r) = (r \<noteq> 0)"
| "truthy JNaN = False"
| "truthy (JStr s) = (s \<noteq> [])"
| "truthy (JArr xs) = True"
| "truthy (JObj kvs) = True"
| "truthy (JNative n) = True"

definition js_or :: "jsval \<Rightarrow> jsval \<Rightarrow> jsval" where
  \<comment> \<open>\<open>a || b\<close>\<close>
  "js_or a b = (if truthy a then a else b)"

fun nullish :: "jsval \<Rightarrow> bool" where
  "nullish JUndefined = True"
| "nullish JNull = True"
| "nullish v = False"

fun is_string :: "jsval \<Rightarrow> bool" where
  \<comment> \<open>\<open>typeof v === 'string'\<close>\<close>
  "is_string (JStr s) = True"
| "is_string v = False"

fun is_array :: "jsval \<Rightarrow> bool" where
  \<comment> \<open>\<open>Array.isArray(v)\<close>\<close>
  "is_array (JArr xs) = True"
| "is_array v = False"

text \<open>
  Reading a property of a value that is neither \<open>null\<close> nor \<open>undefined\<close>. The names
  the code reads with a fixed key (\<open>model\<close>, \<open>messages\<close>, \<open>content\<close>, \<open>choices\<close>,
  \<open>type\<close>, ...) are inherited by no value, so a read finds an object's own property,
  the \<open>length\<close> of an array or a string, or \<open>undefined\<close>.
\<close>

fun get :: "jsval \<Rightarrow> string \<Rightarrow> jsval" where
  "get (JObj kvs) k = (case map_of kvs k of Some v \<Rightarrow> v | None \<Rightarrow> JUndefined)"
| "get (JArr xs) k = (if k = ''length'' then JNum (of_nat (length xs)) else JUndefined)"
| "get (JStr s) k = (if k = ''length'' then JNum (of_nat (length s)) else JUndefined)"
| "get v k = JUndefined"

definition get_prop :: "jsval \<Rightarrow> string \<Rightarrow> error + jsval" where
  \<comment> \<open>\<open>v.k\<close>: a TypeError on \<open>null\<close> and \<open>undefined\<close>\<close>
  "get_prop v k = (if nullish v then Inl TypeError else Inr (get v k))"

definition opt_get :: "jsval \<Rightarrow> string \<Rightarrow> jsval" where
  \<comment> \<open>\<open>v?.k\<close>\<close>
  "opt_get v k = (if nullish v then JUndefined else get v k)"

fun first_elem :: "jsval \<Rightarrow> jsval" where
  \<comment> \<open>\<open>v[0]\<close> of a value that is neither \<open>null\<close> nor \<open>undefined\<close>\<close>
  "first_elem (JArr xs) = (case xs of [] \<Rightarrow> JUndefined | x # _ \<Rightarrow> x)"
| "first_elem (JStr s) = (case s of [] \<Rightarrow> JUndefined | c # _ \<Rightarrow> JStr [c])"
| "first_elem (JObj kvs) = (case map_of kvs ''0'' of Some v \<Rightarrow> v | None \<Rightarrow> JUndefined)"
| "first_elem v = JUndefined"

definition opt_first :: "jsval \<Rightarrow> jsval" where
  \<comment> \<open>\<open>v?.[0]\<close>\<close>
  "opt_first v = (if nullish v then JUndefined else first_elem v)"

fun join_with :: "string \<Rightarrow> string list \<Rightarrow> string" where
  "join_with sep [] = []"
| "join_with sep [x] = x"
| "join_with sep (x # y # ys) = x @ sep @ join_with sep (y # ys)"

text \<open>
  The conversion to a string that \<open>+\<close> and a computed property key apply. It is the
  conversion of values whose objects have no property of their own named \<open>toString\<close>;
  for an object that has one the conversion throws, which is not modelled.
\<close>

fun to_str :: "runtime \<Rightarrow> jsval \<Rightarrow> string" where
  "to_str rt JUndefined = ''undefined''"
| "to_str rt JNull = ''null''"
| "to_str rt (JBool b) = (if b then ''true'' else ''false'')"
| "to_str rt (JNum r) = number_toString rt r"
| "to_str rt JNaN = ''NaN''"
| "to_str rt (JStr s) = s"
| "to_str rt (JArr xs) =
     join_with '','' (map (\<lambda>x. if nullish x then [] else to_str rt x) xs)"
| "to_str rt (JObj kvs) = ''[object Object]''"
| "to_str rt (JNative n) = n"

fun is_numeric :: "jsval \<Rightarrow> bool" where
  \<comment> \<open>the primitives that \<open>+\<close> adds as numbers when neither operand is a string\<close>
  "is_numeric JUndefined = True"
| "is_numeric JNull = True"
| "is_numeric (JBool b) = True"
| "is_numeric (JNum r) = True"
| "is_numeric JNaN = True"
| "is_numeric v = False"

fun to_number :: "jsval \<Rightarrow> rat option" where
  \<comment> \<open>of a primitive that is not a string; \<open>None\<close> is NaN\<close>
  "to_number JNull = Some 0"
| "to_number (JBool b) = Some (if b then 1 else 0)"
| "to_number (JNum r) = Some r"
| "to_number v = None"

definition js_add :: "runtime \<Rightarrow> jsval \<Rightarrow> jsval \<Rightarrow> jsval" where
  \<comment> \<open>\<open>a + b\<close>: concatenation unless both operands are non-string primitives\<close>
  "js_add rt a b =
     (if is_numeric a \<and> is_numeric b then
        (case (to_number a, to_number b) of
           (Some x, Some y) \<Rightarrow> JNum (x + y)
         | _ \<Rightarrow> JNaN)
      else JStr (to_str rt a @ to_str rt b))"

definition greater_than_zero :: "runtime \<Rightarrow> jsval \<Rightarrow> bool" where
  \<comment> \<open>\<open>v > 0\<close>\<close>
  "greater_than_zero rt v =
     (if is_numeric v then (case to_number v of Some x \<Rightarrow> 0 < x | None \<Rightarrow> False)
      else (case string_toNumber rt (to_str rt v) of Some x \<Rightarrow> 0 < x | None \<Rightarrow> False))"

fun obj_set :: "string \<Rightarrow> jsval \<Rightarrow> (string \<times> jsval) list \<Rightarrow> (string \<times> jsval) list" where
  \<comment> \<open>an object literal's \<open>k: v\<close> after a spread: the key keeps its place if it is there\<close>
  "obj_set k v [] = [(k, v)]"
| "obj_set k v ((k', v') # kvs) =
     (if k' = k then (k, v) # kvs else (k', v') # obj_set k v kvs)"

definition startsWith :: "string \<Rightarrow> string \<Rightarrow> bool" where
  \<comment> \<open>\<open>s.startsWith(p)\<close>\<close>
  "startsWith s p = (take (length p) s = p)"

fun map_result :: "('a \<Rightarrow> error + 'b) \<Rightarrow> 'a list \<Rightarrow> error + 'b list" where
  \<comment> \<open>\<open>xs.map(f)\<close> where \<open>f\<close> may throw: the first exception ends the call\<close>
  "map_result f [] = Inr []"
| "map_result f (x # xs) =
     (case f x of
        Inl e \<Rightarrow> Inl e
      | Inr y \<Rightarrow> (case map_result f xs of Inl e \<Rightarrow> Inl e | Inr ys \<Rightarrow> Inr (y # ys)))"

section \<open>Model-name mapping\<close>

text \<open>\<open>OpenRouterTransformer.mapModelName\<close> of transformers.ts.\<close>

definition mapModelName :: "string \<Rightarrow> string" where
  "mapModelName model =
     (if \<not> startsWith model ''claude-'' then model
      else if startsWith model ''claude-opus-4'' then ''anthropic/claude-opus-4''
      else ''anthropic/claude-sonnet-4'')"

text \<open>
  The \<open>mapModelName\<close> declared inside \<open>handleClaudeToOpenRouter\<close> (the
  \<open>/v1/claude-to-openrouter\<close> endpoint).
\<close>

definition handler_mapModelName :: "string \<Rightarrow> string" where
  "handler_mapModelName model =
     (if \<not> startsWith model ''claude-'' then model
      else if startsWith model ''claude-opus-4'' then ''anthropic/claude-opus-4''
      else if startsWith model ''claude-sonnet-4'' then ''anthropic/claude-sonnet-4''
      else if startsWith model ''claude-3-7-sonnet'' then ''anthropic/claude-3.7-sonnet''
      else if startsWith model ''claude-3-5-sonnet'' then ''anthropic/claude-3.5-sonnet''
      else if startsWith model ''claude-3-5-haiku'' then ''anthropic/claude-3.5-haiku''
      else if startsWith model ''claude-3-opus'' then ''anthropic/claude-3-opus''
      else if startsWith model ''claude-3-sonnet'' then ''anthropic/claude-3-sonnet''
      else if startsWith model ''claude-3-haiku'' then ''anthropic/claude-3-haiku''
      else ''anthropic/'' @ model)"

text \<open>The prefixes the handler's table tests, in the order it tests them.\<close>

definition table_prefixes :: "string list" where
  "table_prefixes =
     [''claude-opus-4'', ''claude-sonnet-4'', ''claude-3-7-sonnet'', ''claude-3-5-sonnet'',
      ''claude-3-5-haiku'', ''claude-3-opus'', ''claude-3-sonnet'', ''claude-3-haiku'']"

section \<open>The transformers (transformers.ts)\<close>

definition JSON_parse :: "runtime \<Rightarrow> jsval \<Rightarrow> error + jsval" where
  \<comment> \<open>\<open>JSON.parse(text)\<close>\<close>
  "JSON_parse rt text =
     (case json_parse rt (to_str rt text) of None \<Rightarrow> Inl SyntaxError | Some v \<Rightarrow> Inr v)"

definition JSON_stringify :: "runtime \<Rightarrow> jsval \<Rightarrow> jsval" where
  \<comment> \<open>\<open>JSON.stringify(v)\<close> as a value: a string or \<open>undefined\<close>\<close>
  "JSON_stringify rt v = (case json_stringify rt v of None \<Rightarrow> JUndefined | Some s \<Rightarrow> JStr s)"

subsection \<open>AnthropicTransformer\<close>

definition Anthropic_transformRequestOut :: "jsval \<Rightarrow> error + jsval" where
  "Anthropic_transformRequestOut request =
     (if nullish request then Inl TypeError
      else Inr (JObj
        [(''model'', get request ''model''),
         (''messages'', get request ''messages''),
         (''max_tokens'', get request ''max_tokens''),
         (''temperature'', get request ''temperature''),
         (''stream'', get request ''stream''),
         (''tools'', get request ''tools'')]))"

definition Anthropic_transformRequestIn :: "jsval \<Rightarrow> error + jsval" where
  "Anthropic_transformRequestIn request = Inr request"

definition Anthropic_transformResponseOut :: "runtime \<Rightarrow> jsval \<Rightarrow> error + jsval" where
  "Anthropic_transformResponseOut rt response =
     (case (if is_string response then JSON_parse rt response else Inr response) of
        Inl e \<Rightarrow> Inl e
      | Inr r \<Rightarrow>
          if nullish r then Inl TypeError
          else Inr (JObj
            [(''id'', get r ''id''),
             (''model'', get r ''model''),
             (''content'', get r ''content''),
             (''usage'', get r ''usage'')]))"

definition Anthropic_transformResponseIn :: "runtime \<Rightarrow> jsval \<Rightarrow> error + jsval" where
  "Anthropic_transformResponseIn rt response =
     (if nullish response then Inl TypeError
      else Inr (JObj
        [(''id'', js_or (get response ''id'') (JStr (''msg_'' @ random_id rt 0))),
         (''type'', JStr ''message''),
         (''role'', JStr ''assistant''),
         (''content'', JArr
            [JObj [(''type'', JStr ''text''),
                   (''text'', js_or (get response ''content'') (JStr []))]]),
         (''stop_reason'', JStr ''end_turn''),
         (''stop_sequence'', JNull),
         (''usage'', JObj
            [(''input_tokens'',
                js_or (opt_get (get response ''usage'') ''prompt_tokens'') (JNum 0)),
             (''output_tokens'',
                js_or (opt_get (get response ''usage'') ''completion_tokens'') (JNum 0))])]))"

subsection \<open>OpenRouterTransformer\<close>

definition OpenRouter_transformRequestOut :: "jsval \<Rightarrow> error + jsval" where
  "OpenRouter_transformRequestOut request =
     (if nullish request then Inl TypeError
      else Inr (JObj
        [(''model'', get request ''model''),
         (''messages'', get request ''messages''),
         (''max_tokens'', get request ''max_tokens''),
         (''temperature'', get request ''temperature''),
         (''stream'', get request ''stream''),
         (''tools'', get request ''tools'')]))"

definition call_mapModelName :: "jsval \<Rightarrow> error + jsval" where
  \<comment> \<open>\<open>this.mapModelName(request.model)\<close>: only a string has \<open>startsWith\<close>\<close>
  "call_mapModelName model =
     (case model of JStr s \<Rightarrow> Inr (JStr (mapModelName s)) | _ \<Rightarrow> Inl TypeError)"

text \<open>
  The loop over the blocks of one message, on the variables \<open>content\<close>,
  \<open>tool_call_id\<close> and \<open>isToolResult\<close>.
\<close>

definition block_step ::
  "runtime \<Rightarrow> jsval \<times> jsval \<times> bool \<Rightarrow> jsval \<Rightarrow> error + (jsval \<times> jsval \<times> bool)" where
  "block_step rt st block =
     (case st of (content, tool_call_id, isToolResult) \<Rightarrow>
        if nullish block then Inl TypeError
        else if get block ''type'' = JStr ''text'' then
          Inr (js_add rt content (get block ''text''), tool_call_id, isToolResult)
        else if get block ''type'' = JStr ''tool_result'' then
          Inr (if is_string (get block ''content'') then get block ''content''
               else JSON_stringify rt (get block ''content''),
               get block ''tool_use_id'', True)
        else Inr st)"

fun blocks_loop ::
  "runtime \<Rightarrow> jsval \<times> jsval \<times> bool \<Rightarrow> jsval list \<Rightarrow> error + (jsval \<times> jsval \<times> bool)" where
  "blocks_loop rt st [] = Inr st"
| "blocks_loop rt st (block # blocks) =
     (case block_step rt st block of
        Inl e \<Rightarrow> Inl e
      | Inr st' \<Rightarrow> blocks_loop rt st' blocks)"

text \<open>The function that \<open>transformMessagesToOpenAI\<close> maps over the messages.\<close>

definition transformMessage :: "runtime \<Rightarrow> jsval \<Rightarrow> error + jsval" where
  "transformMessage rt message =
     (if nullish message then Inl TypeError
      else case get message ''content'' of
        JArr blocks \<Rightarrow>
          (case blocks_loop rt (JStr [], JStr [], False) blocks of
             Inl e \<Rightarrow> Inl e
           | Inr (content, tool_call_id, isToolResult) \<Rightarrow>
               if isToolResult then
                 Inr (JObj [(''role'', JStr ''tool''),
                            (''tool_call_id'', tool_call_id),
                            (''content'', content)])
               else
                 Inr (JObj (obj_set ''content'' (js_or content (get message ''content''))
                              (case message of JObj kvs \<Rightarrow> kvs | _ \<Rightarrow> []))))
      | _ \<Rightarrow> Inr message)"

definition transformMessagesToOpenAI :: "runtime \<Rightarrow> jsval \<Rightarrow> error + jsval" where
  "transformMessagesToOpenAI rt messages =
     (case messages of
        JArr ms \<Rightarrow>
          (case map_result (transformMessage rt) ms of
             Inl e \<Rightarrow> Inl e
           | Inr ms' \<Rightarrow> Inr (JArr ms'))
      | _ \<Rightarrow> Inl TypeError)"

definition transformTool :: "jsval \<Rightarrow> error + jsval" where
  "transformTool tool =
     (if nullish tool then Inl TypeError
      else Inr (JObj
        [(''type'', JStr ''function''),
         (''function'', JObj
            [(''name'', get tool ''name''),
             (''description'', get tool ''description''),
             (''parameters'', get tool ''input_schema'')])]))"

definition transformToolsToOpenAI :: "jsval \<Rightarrow> error + jsval" where
  "transformToolsToOpenAI tools =
     (if \<not> truthy tools then Inr JUndefined
      else case tools of
        JArr ts \<Rightarrow>
          (case map_result transformTool ts of
             Inl e \<Rightarrow> Inl e
           | Inr ts' \<Rightarrow> Inr (JArr ts'))
      | _ \<Rightarrow> Inl TypeError)"

definition OpenRouter_transformRequestIn :: "runtime \<Rightarrow> jsval \<Rightarrow> error + jsval" where
  "OpenRouter_transformRequestIn rt request =
     (if nullish request then Inl TypeError
      else case call_mapModelName (get request ''model'') of
        Inl e \<Rightarrow> Inl e
      | Inr model \<Rightarrow>
          (case transformMessagesToOpenAI rt (get request ''messages'') of
             Inl e \<Rightarrow> Inl e
           | Inr messages \<Rightarrow>
               (case transformToolsToOpenAI (get request ''tools'') of
                  Inl e \<Rightarrow> Inl e
                | Inr tools \<Rightarrow>
                    Inr (JObj
                      [(''model'', model),
                       (''messages'', messages),
                       (''max_tokens'', js_or (get request ''max_tokens'') (JNum 4096)),
                       (''temperature'', js_or (get request ''temperature'') (JNum (7 / 10))),
                       (''top_p'', get request ''top_p''),
                       (''stream'', js_or (get request ''stream'') (JBool False)),
                       (''tools'', tools)]))))"

definition OpenRouter_transformResponseOut :: "runtime \<Rightarrow> jsval \<Rightarrow> error + jsval" where
  "OpenRouter_transformResponseOut rt response =
     (case (if is_string response then JSON_parse rt response else Inr response) of
        Inl e \<Rightarrow> Inl e
      | Inr data \<Rightarrow>
          if nullish data then Inl TypeError
          else Inr (JObj
            [(''id'', get data ''id''),
             (''model'', get data ''model''),
             (''content'',
                js_or (opt_get (opt_get (opt_first (get data ''choices'')) ''message'')
                         ''content'')
                      (JStr [])),
             (''usage'', get data ''usage'')]))"

definition convertToClaude :: "runtime \<Rightarrow> jsval \<Rightarrow> error + jsval" where
  "convertToClaude rt openaiResponse =
     (if nullish openaiResponse then Inl TypeError
      else
        let pushed =
              (if truthy (get openaiResponse ''content'')
               then [JObj [(''type'', JStr ''text''),
                           (''text'', get openaiResponse ''content'')]]
               else []);
            contentBlocks =
              (if pushed = []
               then [JObj [(''type'', JStr ''text''), (''text'', JStr [])]]
               else pushed)
        in Inr (JObj
          [(''id'', js_or (get openaiResponse ''id'') (JStr (''msg_'' @ random_id rt 0))),
           (''type'', JStr ''message''),
           (''role'', JStr ''assistant''),
           (''model'', get openaiResponse ''model''),
           (''content'', JArr contentBlocks),
           (''stop_reason'', JStr ''end_turn''),
           (''stop_sequence'', JNull),
           (''usage'', JObj
              [(''input_tokens'',
                  js_or (opt_get (get openaiResponse ''usage'') ''prompt_tokens'') (JNum 0)),
               (''output_tokens'',
                  js_or (opt_get (get openaiResponse ''usage'') ''completion_tokens'')
                    (JNum 0))])]))"

definition OpenRouter_transformResponseIn :: "runtime \<Rightarrow> jsval \<Rightarrow> error + jsval" where
  "OpenRouter_transformResponseIn rt response = convertToClaude rt response"

section \<open>The \<open>/v1/claude-to-openrouter\<close> and \<open>/v1/claude-proxy\<close> handlers\<close>

subsection \<open>Requests, responses and the provider\<close>

text \<open>
  A request as the handlers read it, the call a handler makes to the provider, and what the
  provider answers: a status and a body that is read chunk by chunk, where a read can fail.
  Bodies are texts. Of the headers only those the handlers branch on, and the outgoing
  \<open>Authorization\<close>, are kept.
\<close>

record http_request =
  req_method :: string
  authorization :: "string option"
  referer :: "string option"
  req_body :: string

record outbound =
  url :: string
  out_authorization :: string
  out_body :: string

datatype read = Chunk string | ReadError

record upstream =
  up_status :: nat
  up_body :: "read list option"

datatype stream_end = Closed | Errored | Left_open

datatype body =
    Text string
  | EventStream "(string \<times> jsval) list" stream_end
  | Pieces "string list" stream_end
  | Relay "read list option"

record response =
  status :: nat
  content_type :: "string option"
  body :: body

definition ok :: "upstream \<Rightarrow> bool" where
  \<comment> \<open>\<open>response.ok\<close>\<close>
  "ok r = (200 \<le> up_status r \<and> up_status r \<le> 299)"

fun chunks_text :: "read list \<Rightarrow> error + string" where
  "chunks_text [] = Inr []"
| "chunks_text (Chunk s # rs) =
     (case chunks_text rs of Inl e \<Rightarrow> Inl e | Inr t \<Rightarrow> Inr (s @ t))"
| "chunks_text (ReadError # rs) = Inl NetworkError"

definition response_text :: "upstream \<Rightarrow> error + string" where
  \<comment> \<open>\<open>await response.text()\<close>\<close>
  "response_text r = (case up_body r of None \<Rightarrow> Inr [] | Some rs \<Rightarrow> chunks_text rs)"

definition response_json :: "runtime \<Rightarrow> upstream \<Rightarrow> error + jsval" where
  \<comment> \<open>\<open>await response.json()\<close>\<close>
  "response_json rt r =
     (case response_text r of Inl e \<Rightarrow> Inl e | Inr t \<Rightarrow> JSON_parse rt (JStr t))"

definition stringify_text :: "runtime \<Rightarrow> jsval \<Rightarrow> string" where
  \<comment> \<open>\<open>JSON.stringify(v)\<close> as a body\<close>
  "stringify_text rt v = (case json_stringify rt v of None \<Rightarrow> [] | Some s \<Rightarrow> s)"


fun replace_first :: "string \<Rightarrow> string \<Rightarrow> string \<Rightarrow> string" where
  \<comment> \<open>\<open>s.replace(pat, rep)\<close> with a non-empty string pattern: the first occurrence\<close>
  "replace_first pat rep [] = []"
| "replace_first pat rep (c # cs) =
     (if startsWith (c # cs) pat then rep @ drop (length pat) (c # cs)
      else c # replace_first pat rep cs)"

definition is_space :: "char \<Rightarrow> bool" where
  \<comment> \<open>the white space that \<open>trim\<close> removes, among the characters of the model\<close>
  "is_space c = (c \<in> {CHR 0x09, CHR 0x0A, CHR 0x0B, CHR 0x0C, CHR 0x0D, CHR 0x20, CHR 0xA0})"

definition trim :: "string \<Rightarrow> string" where
  "trim s = rev (dropWhile is_space (rev (dropWhile is_space s)))"

fun split_nl :: "string \<Rightarrow> string list" where
  \<comment> \<open>\<open>s.split('\n')\<close>\<close>
  "split_nl [] = [[]]"
| "split_nl (c # cs) =
     (if c = CHR 0x0A then [] # split_nl cs
      else (case split_nl cs of [] \<Rightarrow> [[c]] | l # ls \<Rightarrow> (c # l) # ls))"

subsection \<open>The stop-reason table\<close>

text \<open>
  The table is an object literal indexed with the finish reason. An object literal
  inherits the properties of \<open>Object.prototype\<close>, so indexing it with one of their names
  finds a built-in, not \<open>undefined\<close>.
\<close>

definition object_prototype_names :: "string list" where
  "object_prototype_names =
     [''constructor'', ''__defineGetter__'', ''__defineSetter__'', ''hasOwnProperty'',
      ''__lookupGetter__'', ''__lookupSetter__'', ''isPrototypeOf'',
      ''propertyIsEnumerable'', ''toString'', ''valueOf'', ''__proto__'',
      ''toLocaleString'']"

definition stop_reason_table :: "string \<Rightarrow> jsval" where
  "stop_reason_table key =
     (if key = ''stop'' then JStr ''end_turn''
      else if key = ''length'' then JStr ''max_tokens''
      else if key = ''tool_calls'' then JStr ''tool_use''
      else if key = ''function_call'' then JStr ''tool_use''
      else if key \<in> set object_prototype_names then JNative key
      else JUndefined)"

definition stopReason :: "runtime \<Rightarrow> jsval \<Rightarrow> jsval" where
  \<comment> \<open>\<open>{...}[finishReason] || 'end_turn'\<close>\<close>
  "stopReason rt finishReason =
     js_or (stop_reason_table (to_str rt finishReason)) (JStr ''end_turn'')"

subsection \<open>convertOpenAIToClaude\<close>

fun iterate :: "jsval \<Rightarrow> error + jsval list" where
  \<comment> \<open>what \<open>for (const x of v)\<close> ranges over: a TypeError when \<open>v\<close> is not iterable\<close>
  "iterate (JArr xs) = Inr xs"
| "iterate (JStr s) = Inr (map (\<lambda>c. JStr [c]) s)"
| "iterate v = Inl TypeError"

definition tool_input :: "runtime \<Rightarrow> jsval \<Rightarrow> error + jsval" where
  \<comment> \<open>the \<open>try\<close>/\<open>catch\<close> that computes \<open>input\<close>; the \<open>catch\<close> block can throw too\<close>
  "tool_input rt toolCall =
     (case (case get_prop (get toolCall ''function'') ''arguments'' of
              Inl e \<Rightarrow> Inl e
            | Inr a \<Rightarrow> JSON_parse rt (js_or a (JStr ''{}''))) of
        Inr v \<Rightarrow> Inr v
      | Inl _ \<Rightarrow>
          (case get_prop (get toolCall ''function'') ''arguments'' of
             Inl e \<Rightarrow> Inl e
           | Inr a \<Rightarrow> Inr (JObj [(''raw_arguments'', js_or a (JStr []))])))"

text \<open>
  The loop over \<open>toolCalls\<close>: the blocks pushed for the tool calls from position \<open>i\<close> on.
  The random suffix of a missing tool id is the draw of the call's position.
\<close>

fun tool_blocks :: "runtime \<Rightarrow> nat \<Rightarrow> jsval list \<Rightarrow> error + jsval list" where
  "tool_blocks rt i [] = Inr []"
| "tool_blocks rt i (toolCall # toolCalls) =
     (if nullish toolCall then Inl TypeError
      else if get toolCall ''type'' = JStr ''function'' then
        (case tool_input rt toolCall of
           Inl e \<Rightarrow> Inl e
         | Inr input \<Rightarrow>
             (case tool_blocks rt (Suc i) toolCalls of
                Inl e \<Rightarrow> Inl e
              | Inr blocks \<Rightarrow>
                  Inr (JObj
                    [(''type'', JStr ''tool_use''),
                     (''id'', js_or (get toolCall ''id'')
                                (JStr (''tool_'' @ random_id rt (Suc i)))),
                     (''name'', js_or (get (get toolCall ''function'') ''name'') (JStr [])),
                     (''input'', input)] # blocks)))
      else tool_blocks rt (Suc i) toolCalls)"

definition convertOpenAIToClaude :: "runtime \<Rightarrow> jsval \<Rightarrow> jsval \<Rightarrow> error + jsval" where
  "convertOpenAIToClaude rt openaiResponse originalRequest =
     (if nullish openaiResponse then Inl TypeError
      else
        let choices = js_or (get openaiResponse ''choices'') (JArr []) in
        if \<not> truthy (get choices ''length'') then Inl (Error ''No choices in OpenAI response'')
        else
          let choice = first_elem choices in
          if nullish choice then Inl TypeError
          else
            let message = js_or (get choice ''message'') (JObj []);
                textBlocks =
                  (if truthy (get message ''content'')
                   then [JObj [(''type'', JStr ''text''), (''text'', get message ''content'')]]
                   else [])
            in case iterate (js_or (get message ''tool_calls'') (JArr [])) of
              Inl e \<Rightarrow> Inl e
            | Inr toolCalls \<Rightarrow>
                (case tool_blocks rt 0 toolCalls of
                   Inl e \<Rightarrow> Inl e
                 | Inr toolBlocks \<Rightarrow>
                     let pushed = textBlocks @ toolBlocks;
                         contentBlocks =
                           (if pushed = []
                            then [JObj [(''type'', JStr ''text''), (''text'', JStr [])]]
                            else pushed);
                         finishReason = js_or (get choice ''finish_reason'') (JStr ''stop'')
                     in if nullish originalRequest then Inl TypeError
                        else Inr (JObj
                          [(''id'', js_or (get openaiResponse ''id'')
                                      (JStr (''msg_'' @ random_id rt 0))),
                           (''type'', JStr ''message''),
                           (''role'', JStr ''assistant''),
                           (''model'', get originalRequest ''model''),
                           (''content'', JArr contentBlocks),
                           (''stop_reason'', stopReason rt finishReason),
                           (''stop_sequence'', JNull),
                           (''usage'', JObj
                              [(''input_tokens'',
                                  js_or (opt_get (get openaiResponse ''usage'') ''prompt_tokens'')
                                    (JNum 0)),
                               (''output_tokens'',
                                  js_or (opt_get (get openaiResponse ''usage'')
                                           ''completion_tokens'')
                                    (JNum 0))])])))"

subsection \<open>convertOpenAIStreamToClaude\<close>

definition convertOpenAIStreamToClaude :: "runtime \<Rightarrow> jsval \<Rightarrow> jsval \<Rightarrow> error + jsval" where
  "convertOpenAIStreamToClaude rt chunk originalRequest =
     (if nullish chunk then Inl TypeError
      else if truthy (get chunk ''choices'')
              \<and> greater_than_zero rt (get (get chunk ''choices'') ''length'') then
        let choice = first_elem (get chunk ''choices'') in
        if nullish choice then Inl TypeError
        else
          let delta = get choice ''delta'' in
          if nullish delta then Inl TypeError
          else if truthy (get delta ''content'') then
            Inr (JObj
              [(''type'', JStr ''content_block_delta''),
               (''index'', JNum 0),
               (''delta'', JObj [(''type'', JStr ''text_delta''),
                                 (''text'', get delta ''content'')])])
          else if truthy (get choice ''finish_reason'') then
            (let unused = stopReason rt (get choice ''finish_reason'')
             in Inr (JObj [(''type'', JStr ''message_stop'')]))
          else Inr JNull
      else Inr JNull)"

subsection \<open>The stream translator of handleClaudeToOpenRouter\<close>

text \<open>
  An emitted event is the pair that \<open>sendEvent(eventType, data)\<close> is called with; its
  text on the wire is \<open>frame\<close>.
\<close>

type_synonym sse = "string \<times> jsval"

definition frame :: "runtime \<Rightarrow> sse \<Rightarrow> string" where
  "frame rt ev =
     ''event: '' @ fst ev @ [CHR 0x0A] @ ''data: '' @ stringify_text rt (snd ev)
       @ [CHR 0x0A, CHR 0x0A]"

text \<open>
  The three events sent at a terminal marker, after which the controller is closed and
  \<open>processStream\<close> returns. \<open>stop_data\<close> is the data of the \<open>message_stop\<close> event.
\<close>

definition terminal_events :: "jsval \<Rightarrow> sse list" where
  "terminal_events stop_data =
     [(''content_block_stop'',
         JObj [(''type'', JStr ''content_block_stop''), (''index'', JNum 0)]),
      (''message_delta'',
         JObj [(''type'', JStr ''message_delta''),
               (''delta'', JObj [(''stop_reason'', JStr ''end_turn''),
                                 (''stop_sequence'', JNull)]),
               (''usage'', JObj [(''output_tokens'', JNum 0)])]),
      (''message_stop'', stop_data)]"

text \<open>
  The body of \<open>for (const line of lines)\<close> for one line: the events it sends, and
  whether it closed the stream and returned. An exception of \<open>JSON.parse\<close> or of
  \<open>convertOpenAIStreamToClaude\<close> is caught and logged.
\<close>

definition process_line :: "runtime \<Rightarrow> jsval \<Rightarrow> string \<Rightarrow> sse list \<times> bool" where
  "process_line rt claudeRequest line =
     (if startsWith line ''data: '' then
        let data = trim (drop 6 line) in
        if data = ''[DONE]'' then
          (terminal_events (JObj [(''type'', JStr ''message_stop'')]), True)
        else if data \<noteq> [] then
          (case JSON_parse rt (JStr data) of
             Inl e \<Rightarrow> ([], False)
           | Inr parsed \<Rightarrow>
               (case convertOpenAIStreamToClaude rt parsed claudeRequest of
                  Inl e \<Rightarrow> ([], False)
                | Inr claudeChunk \<Rightarrow>
                    if truthy claudeChunk then
                      if get claudeChunk ''type'' = JStr ''content_block_delta'' then
                        ([(''content_block_delta'', claudeChunk)], False)
                      else if get claudeChunk ''type'' = JStr ''message_stop'' then
                        (terminal_events claudeChunk, True)
                      else ([], False)
                    else ([], False)))
        else ([], False)
      else ([], False))"

fun process_lines :: "runtime \<Rightarrow> jsval \<Rightarrow> string list \<Rightarrow> sse list \<times> bool" where
  "process_lines rt claudeRequest [] = ([], False)"
| "process_lines rt claudeRequest (line # lines) =
     (case process_line rt claudeRequest line of
        (evs, True) \<Rightarrow> (evs, True)
      | (evs, False) \<Rightarrow>
          (case process_lines rt claudeRequest lines of
             (evs', fin) \<Rightarrow> (evs @ evs', fin)))"

text \<open>
  The \<open>while (true)\<close> loop of \<open>processStream\<close> over the reads that are left, with the
  text buffered so far. When the reader is done the loop is left and the controller is
  neither closed nor put in error; a failed read is caught by the outer \<open>catch\<close>.
\<close>

fun read_loop :: "runtime \<Rightarrow> jsval \<Rightarrow> string \<Rightarrow> read list \<Rightarrow> sse list \<times> stream_end" where
  "read_loop rt claudeRequest buffer [] = ([], Left_open)"
| "read_loop rt claudeRequest buffer (ReadError # reads) = ([], Errored)"
| "read_loop rt claudeRequest buffer (Chunk v # reads) =
     (let lines = split_nl (buffer @ v);
          buffer' = (if lines = [] then [] else last lines)
      in case process_lines rt claudeRequest (butlast lines) of
           (evs, True) \<Rightarrow> (evs, Closed)
         | (evs, False) \<Rightarrow>
             (case read_loop rt claudeRequest buffer' reads of
                (evs', e) \<Rightarrow> (evs @ evs', e)))"

definition processStream ::
  "runtime \<Rightarrow> jsval \<Rightarrow> read list option \<Rightarrow> sse list \<times> stream_end" where
  "processStream rt claudeRequest reader =
     (case reader of
        None \<Rightarrow> ([], Left_open)
      | Some reads \<Rightarrow> read_loop rt claudeRequest [] reads)"

text \<open>
  \<open>start(controller)\<close>: the two opening events, then \<open>processStream\<close>. All the events
  of the response, in order, and how the stream ends.
\<close>

definition stream_start ::
  "runtime \<Rightarrow> jsval \<Rightarrow> read list option \<Rightarrow> sse list \<times> stream_end" where
  "stream_start rt claudeRequest reader =
     (case processStream rt claudeRequest reader of
        (evs, e) \<Rightarrow>
          ([(''message_start'',
               JObj [(''type'', JStr ''message_start''),
                     (''message'', JObj
                        [(''id'', JStr (''msg_'' @ random_id rt 0)),
                         (''type'', JStr ''message''),
                         (''role'', JStr ''assistant''),
                         (''model'', get claudeRequest ''model''),
                         (''content'', JArr []),
                         (''stop_reason'', JNull),
                         (''stop_sequence'', JNull),
                         (''usage'', JObj [(''input_tokens'', JNum 0),
                                           (''output_tokens'', JNum 0)])])]),
            (''content_block_start'',
               JObj [(''type'', JStr ''content_block_start''),
                     (''index'', JNum 0),
                     (''content_block'', JObj [(''type'', JStr ''text''),
                                               (''text'', JStr [])])])]
           @ evs, e))"

subsection \<open>handleClaudeToOpenRouter\<close>

definition openRouterRequest :: "jsval \<Rightarrow> error + jsval" where
  \<comment> \<open>the object built from the request, with its \<open>undefined\<close> properties deleted\<close>
  "openRouterRequest claudeRequest =
     (if nullish claudeRequest then Inl TypeError
      else case get claudeRequest ''model'' of
        JStr model \<Rightarrow>
          Inr (JObj (filter (\<lambda>kv. snd kv \<noteq> JUndefined)
            [(''model'', JStr (handler_mapModelName model)),
             (''messages'', get claudeRequest ''messages''),
             (''max_tokens'', js_or (get claudeRequest ''max_tokens'') (JNum 4096)),
             (''temperature'', js_or (get claudeRequest ''temperature'') (JNum (7 / 10))),
             (''top_p'', get claudeRequest ''top_p''),
             (''stream'', js_or (get claudeRequest ''stream'') (JBool False))]))
      | _ \<Rightarrow> Inl TypeError)"

text \<open>
  A handler returns the calls it made to the provider and either its response or the
  exception it threw (which the worker's \<open>fetch\<close> answers with status 500). The text of
  the 401 responses is Chinese in the source and is given here in translation.
\<close>

definition json_response :: "nat \<Rightarrow> string \<Rightarrow> response" where
  \<comment> \<open>a response with a text body and one of the handlers' constant statuses\<close>
  "json_response st text =
     \<lparr>status = st, content_type = Some ''application/json'', body = Text text\<rparr>"

text \<open>
  \<open>new Response(body, {status, headers})\<close> with the status of the provider's response.
  The constructor throws a RangeError when the status is outside 200 to 599, and a
  TypeError when there is a body and the status is a null-body status; a text is a body
  even when it is empty, and so is a stream the handler made. Only the provider's own
  body, passed through, can be \<open>null\<close>.
\<close>

definition null_body_status :: "nat \<Rightarrow> bool" where
  "null_body_status st = (st = 101 \<or> st = 103 \<or> st = 204 \<or> st = 205 \<or> st = 304)"

definition new_Response :: "body \<Rightarrow> nat \<Rightarrow> string option \<Rightarrow> error + response" where
  "new_Response b st ct =
     (if st < 200 \<or> 599 < st then Inl RangeError
      else if b \<noteq> Relay None \<and> null_body_status st then Inl TypeError
      else Inr \<lparr>status = st, content_type = ct, body = b\<rparr>)"

definition handleClaudeToOpenRouter ::
  "runtime \<Rightarrow> (outbound \<Rightarrow> error + upstream) \<Rightarrow> http_request
     \<Rightarrow> outbound list \<times> (error + response)" where
  "handleClaudeToOpenRouter rt fetch request =
     (if req_method request \<noteq> ''POST'' then
        ([], Inr \<lparr>status = 405, content_type = None, body = Text ''Method not allowed''\<rparr>)
      else case authorization request of
        None \<Rightarrow>
          ([], Inr (json_response 401 (stringify_text rt
                 (JObj [(''error'', JStr ''A valid Authorization header is required'')]))))
      | Some authHeader \<Rightarrow>
          if authHeader = [] \<or> \<not> startsWith authHeader ''Bearer '' then
            ([], Inr (json_response 401 (stringify_text rt
                   (JObj [(''error'', JStr ''A valid Authorization header is required'')]))))
          else
            let openRouterKey = replace_first ''Bearer '' [] authHeader in
            case JSON_parse rt (JStr (req_body request)) of
              Inl e \<Rightarrow> ([], Inl e)
            | Inr claudeRequest \<Rightarrow>
                (case openRouterRequest claudeRequest of
                   Inl e \<Rightarrow> ([], Inl e)
                 | Inr orRequest \<Rightarrow>
                     let call = \<lparr>url = ''https://openrouter.ai/api/v1/chat/completions'',
                                 out_authorization = ''Bearer '' @ openRouterKey,
                                 out_body = stringify_text rt orRequest\<rparr>
                     in case fetch call of
                          Inl e \<Rightarrow> ([call], Inl e)
                        | Inr resp \<Rightarrow>
                            if \<not> ok resp then
                              (case response_text resp of
                                 Inl e \<Rightarrow> ([call], Inl e)
                               | Inr errorText \<Rightarrow>
                                   ([call], new_Response (Text errorText) (up_status resp)
                                              (Some ''application/json'')))
                            else if truthy (get claudeRequest ''stream'') then
                              (case stream_start rt claudeRequest (up_body resp) of
                                 (evs, e) \<Rightarrow>
                                   ([call], Inr \<lparr>status = 200,
                                                 content_type = Some ''text/event-stream'',
                                                 body = EventStream evs e\<rparr>))
                            else
                              (case response_json rt resp of
                                 Inl e \<Rightarrow> ([call], Inl e)
                               | Inr openaiResponse \<Rightarrow>
                                   (case convertOpenAIToClaude rt openaiResponse claudeRequest of
                                      Inl e \<Rightarrow> ([call], Inl e)
                                    | Inr claudeResponse \<Rightarrow>
                                        ([call], Inr (json_response 200
                                           (stringify_text rt claudeResponse)))))))"

subsection \<open>handleClaudeProxy\<close>

text \<open>The relay of a streamed answer: what is enqueued for one line, one chunk, all reads.\<close>

definition relay_line :: "string \<Rightarrow> string list" where
  "relay_line line =
     (if startsWith line ''data: '' then
        (if trim (drop 6 line) = [] then []
         else [''data: '' @ drop 6 line @ [CHR 0x0A, CHR 0x0A]]
              @ (if startsWith line ''event: '' then [line @ [CHR 0x0A]] else []))
      else if startsWith line ''event: '' then [line @ [CHR 0x0A]]
      else [])"

fun relay_loop :: "read list \<Rightarrow> string list \<times> stream_end" where
  "relay_loop [] = ([], Closed)"
| "relay_loop (ReadError # reads) = ([], Errored)"
| "relay_loop (Chunk v # reads) =
     (case relay_loop reads of
        (ps, e) \<Rightarrow> (concat (map relay_line (split_nl v)) @ ps, e))"

definition handleClaudeProxy ::
  "runtime \<Rightarrow> (outbound \<Rightarrow> error + upstream) \<Rightarrow> http_request
     \<Rightarrow> outbound list \<times> (error + response)" where
  "handleClaudeProxy rt fetch request =
     (if req_method request \<noteq> ''POST'' then
        ([], Inr \<lparr>status = 405, content_type = None, body = Text ''Method not allowed''\<rparr>)
      else case authorization request of
        None \<Rightarrow>
          ([], Inr (json_response 401 (stringify_text rt
                 (JObj [(''error'', JStr ''An Authorization header is required'')]))))
      | Some authHeader \<Rightarrow>
          if authHeader = [] then
            ([], Inr (json_response 401 (stringify_text rt
                   (JObj [(''error'', JStr ''An Authorization header is required'')]))))
          else
            let claudeRequestText = req_body request in
            case JSON_parse rt (JStr claudeRequestText) of
              Inl e \<Rightarrow> ([], Inl e)
            | Inr claudeRequest \<Rightarrow>
                let call = \<lparr>url = ''https://api.anthropic.com/v1/messages'',
                            out_authorization = authHeader,
                            out_body = claudeRequestText\<rparr>
                in case fetch call of
                     Inl e \<Rightarrow> ([call], Inl e)
                   | Inr resp \<Rightarrow>
                       (case get_prop claudeRequest ''stream'' of
                          Inl e \<Rightarrow> ([call], Inl e)
                        | Inr stream \<Rightarrow>
                            if truthy stream then
                              (case (case up_body resp of
                                       None \<Rightarrow> ([], Left_open)
                                     | Some reads \<Rightarrow> relay_loop reads) of
                                 (ps, e) \<Rightarrow>
                                   ([call], new_Response (Pieces ps e) (up_status resp)
                                              (Some ''text/event-stream'')))
                            else
                              (case response_text resp of
                                 Inl e \<Rightarrow> ([call], Inl e)
                               | Inr responseData \<Rightarrow>
                                   ([call], new_Response (Text responseData) (up_status resp)
                                              (Some ''application/json'')))))"

section \<open>The conversion service (\<open>/from-{source}/to-{target}\<close>)\<close>

datatype transformer = AnthropicTransformer | OpenRouterTransformer








definition transformResponseOut :: "runtime \<Rightarrow> transformer \<Rightarrow> jsval \<Rightarrow> error + jsval" where
  "transformResponseOut rt t response =
     (case t of
        AnthropicTransformer \<Rightarrow> Anthropic_transformResponseOut rt response
      | OpenRouterTransformer \<Rightarrow> OpenRouter_transformResponseOut rt response)"

definition transformResponseIn :: "runtime \<Rightarrow> transformer \<Rightarrow> jsval \<Rightarrow> error + jsval" where
  "transformResponseIn rt t response =
     (case t of
        AnthropicTransformer \<Rightarrow> Anthropic_transformResponseIn rt response
      | OpenRouterTransformer \<Rightarrow> OpenRouter_transformResponseIn rt response)"




definition cross_response ::
  "runtime \<Rightarrow> transformer \<Rightarrow> transformer \<Rightarrow> jsval \<Rightarrow> error + jsval" where
  \<comment> \<open>\<open>sourceTransformer.transformResponseIn(targetTransformer.transformResponseOut(data))\<close>\<close>
  "cross_response rt sourceTransformer targetTransformer responseData =
     (case transformResponseOut rt targetTransformer responseData of
        Inl e \<Rightarrow> Inl e
      | Inr unifiedResponse \<Rightarrow> transformResponseIn rt sourceTransformer unifiedResponse)"





section \<open>A sample runtime\<close>

text \<open>
  The theorems below hold for every runtime. Where a statement needs a concrete one, this
  runtime is used: on the texts and values listed it answers as \<open>JSON.parse\<close> and
  \<open>JSON.stringify\<close> do, and it rejects every other text, among them the truncated line
  of the examples; its other components are not consulted.
\<close>

definition sample_parse :: "(string \<times> jsval) list" where
  \<open>sample_parse =
     [(''{"model": "m"}'', JObj [(''model'', JStr ''m'')]),
      (''{"id": "x"}'', JObj [(''id'', JStr ''x'')]),
      (''{"choices":[{"delta":{"content":"Hi"}}]}'',
         JObj [(''choices'', JArr [JObj [(''delta'', JObj [(''content'', JStr ''Hi'')])]])]),
      (''{"choices":[{"delta":{},"finish_reason":"length"}]}'',
         JObj [(''choices'', JArr [JObj [(''delta'', JObj []),
                                         (''finish_reason'', JStr ''length'')]])])]\<close>

definition sample_stringify :: "(jsval \<times> string) list" where
  \<open>sample_stringify =
     [(JObj [(''model'', JStr ''m'')], ''{"model":"m"}''),
      (JObj [(''id'', JStr ''x'')], ''{"id":"x"}'')]\<close>

definition sample_runtime :: runtime where
  "sample_runtime =
     \<lparr>json_parse = map_of sample_parse,
      json_stringify = map_of sample_stringify,
      number_toString = (\<lambda>r. ''0''),
      string_toNumber = (\<lambda>s. None),
      builtin_message = (\<lambda>e. ''error''),
      random_id = (\<lambda>n. ''r'')\<rparr>"

text \<open>
  Three lines of a provider stream: a content fragment, a chunk carrying the finish reason
  \<open>length\<close>, and a line cut off in the middle, which \<open>JSON.parse\<close> rejects. The request
  the examples were sent for.
\<close>

definition delta_line :: string where
  \<open>delta_line = ''data: {"choices":[{"delta":{"content":"Hi"}}]}''\<close>

definition finish_line :: string where
  \<open>finish_line = ''data: {"choices":[{"delta":{},"finish_reason":"length"}]}''\<close>

definition broken_line :: string where
  \<open>broken_line = ''data: {"choices":[{"del''\<close>

definition sample_request :: jsval where
  "sample_request = JObj [(''model'', JStr ''m''), (''stream'', JBool True)]"

text \<open>A text that ends where a line begins: it is empty or ends with a line feed.\<close>

definition line_start :: "string \<Rightarrow> bool" where
  "line_start a = (a = [] \<or> last a = CHR 0x0A)"

text \<open>
  A client request whose body has a space after the colon, and a provider that answers
  every call with status 200 and a body that has one too.
\<close>

definition sample_http_request :: http_request where
  \<open>sample_http_request =
     \<lparr>req_method = ''POST'', authorization = Some ''Bearer k'', referer = None,
      req_body = ''{"model": "m"}''\<rparr>\<close>



text \<open>A provider completion with the reply \<open>Hi\<close> and a given finish reason.\<close>

definition sample_completion :: "jsval \<Rightarrow> jsval" where
  "sample_completion finish =
     JObj [(''id'', JStr ''gen-1''), (''model'', JStr ''m''),
           (''choices'', JArr [JObj [(''message'', JObj [(''content'', JStr ''Hi'')]),
                                     (''finish_reason'', finish)]])]"

definition sample_converted :: "string \<Rightarrow> jsval" where
  \<comment> \<open>the Claude-shaped response for that completion, with a given stop reason\<close>
  "sample_converted stop =
     JObj [(''id'', JStr ''gen-1''), (''type'', JStr ''message''),
           (''role'', JStr ''assistant''), (''model'', JStr ''m''),
           (''content'', JArr [JObj [(''type'', JStr ''text''), (''text'', JStr ''Hi'')]]),
           (''stop_reason'', JStr stop), (''stop_sequence'', JNull),
           (''usage'', JObj [(''input_tokens'', JNum 0), (''output_tokens'', JNum 0)])]"

section \<open>The stop-reason table of the specification\<close>

text \<open>
  The table as the specification words it: \<open>stop\<close> to \<open>end_turn\<close>, \<open>length\<close> to
  \<open>max_tokens\<close>, \<open>tool_calls\<close> and \<open>function_call\<close> to \<open>tool_use\<close>, anything else to
  \<open>end_turn\<close>. The code is compared with it.
\<close>

definition spec_stop_reason :: "string \<Rightarrow> string" where
  "spec_stop_reason reason =
     (if reason = ''stop'' then ''end_turn''
      else if reason = ''length'' then ''max_tokens''
      else if reason = ''tool_calls'' then ''tool_use''
      else if reason = ''function_call'' then ''tool_use''
      else ''end_turn'')"

text \<open>
  A block that the loop of \<open>transformMessage\<close> passes over, and a message that its
  lowering returns as it is: the content is not a block list, or is a list of such blocks.
\<close>

definition kept_block :: "jsval \<Rightarrow> bool" where
  "kept_block block =
     (\<not> nullish block \<and> get block ''type'' \<noteq> JStr ''text''
      \<and> get block ''type'' \<noteq> JStr ''tool_result'')"

definition kept_message :: "jsval \<Rightarrow> bool" where
  "kept_message message =
     (\<not> nullish message
      \<and> (case get message ''content'' of
            JArr blocks \<Rightarrow> list_all kept_block blocks
          | _ \<Rightarrow> True))"

text \<open>
  Three unified requests: the one of the specification's end-to-end scenario, one with a
  text block list and a tool, and one with a \<open>tool_use\<close> block list and an empty tool
  list.
\<close>

definition scenario_request :: jsval where
  "scenario_request =
     JObj [(''model'', JStr ''claude-sonnet-4''),
           (''messages'', JArr [JObj [(''role'', JStr ''user''), (''content'', JStr ''Hello'')]]),
           (''max_tokens'', JNum 1000)]"

definition blocks_request :: jsval where
  "blocks_request =
     JObj [(''model'', JStr ''gpt-4''),
           (''messages'', JArr [JObj [(''role'', JStr ''user''),
              (''content'', JArr [JObj [(''type'', JStr ''text''),
                                        (''text'', JStr ''Hello'')]])]]),
           (''tools'', JArr [JObj [(''name'', JStr ''f''),
                                   (''description'', JStr ''d''),
                                   (''input_schema'', JObj [])]])]"

definition kept_request :: jsval where
  "kept_request =
     JObj [(''model'', JStr ''claude-sonnet-4''),
           (''messages'', JArr
              [JObj [(''role'', JStr ''user''), (''content'', JStr ''Hello'')],
               JObj [(''role'', JStr ''assistant''),
                     (''content'', JArr [JObj [(''type'', JStr ''tool_use''),
                                               (''id'', JStr ''u1''),
                                               (''name'', JStr ''f''),
                                               (''input'', JObj [])]])]]),
           (''max_tokens'', JNum 1000),
           (''tools'', JArr [])]"

section \<open>Properties of the model-name mapping\<close>

lemma startsWith_iff: "startsWith s p \<longleftrightarrow> (\<exists>t. s = p @ t)"
proof
  assume "startsWith s p"
  then have "s = p @ drop (length p) s"
    by (metis append_take_drop_id startsWith_def)
  then show "\<exists>t. s = p @ t" ..
next
  assume "\<exists>t. s = p @ t"
  then show "startsWith s p" by (auto simp: startsWith_def)
qed

lemma startsWith_trans: "startsWith s p \<Longrightarrow> startsWith p q \<Longrightarrow> startsWith s q"
  by (auto simp: startsWith_iff)

text \<open>
  C1 (as stated, refuted on the transformer). The claim asks every model-name mapping for
  the OpenRouter target to send \<open>claude-3-5-sonnet-20241022\<close> to
  \<open>anthropic/claude-3.5-sonnet\<close>. \<open>OpenRouterTransformer.mapModelName\<close> sends it to
  \<open>anthropic/claude-sonnet-4\<close>, and an unlisted \<open>claude-\<close> name is not prefixed with
  \<open>anthropic/\<close> either.
\<close>

theorem C1_transformer_counterexample:
  "mapModelName ''claude-3-5-sonnet-20241022'' = ''anthropic/claude-sonnet-4''
   \<and> mapModelName ''claude-3-5-sonnet-20241022'' \<noteq> ''anthropic/claude-3.5-sonnet''
   \<and> startsWith ''claude-2.1'' ''claude-''
   \<and> mapModelName ''claude-2.1'' \<noteq> ''anthropic/'' @ ''claude-2.1''"
  by (simp add: mapModelName_def startsWith_def)

text \<open>
  C1 (amended). The handler's \<open>mapModelName\<close> does what the claim says: the two named
  models map as stated, a name starting with \<open>claude-\<close> that starts with no table prefix
  gets \<open>anthropic/\<close> prepended, and any other name is returned unchanged. The
  transformer's \<open>mapModelName\<close> returns a name not starting with \<open>claude-\<close> unchanged,
  maps a name starting with \<open>claude-opus-4\<close> to \<open>anthropic/claude-opus-4\<close> and every
  other \<open>claude-\<close> name to \<open>anthropic/claude-sonnet-4\<close>.
\<close>

theorem C1_mapModelName:
  "handler_mapModelName ''claude-3-5-sonnet-20241022'' = ''anthropic/claude-3.5-sonnet''
   \<and> handler_mapModelName ''claude-opus-4-20250101'' = ''anthropic/claude-opus-4''
   \<and> (startsWith m1 ''claude-'' \<and> list_all (\<lambda>p. \<not> startsWith m1 p) table_prefixes
        \<longrightarrow> handler_mapModelName m1 = ''anthropic/'' @ m1)
   \<and> (\<not> startsWith m2 ''claude-'' \<longrightarrow> handler_mapModelName m2 = m2)
   \<and> (\<not> startsWith m2 ''claude-'' \<longrightarrow> mapModelName m2 = m2)
   \<and> (startsWith m3 ''claude-opus-4'' \<longrightarrow> mapModelName m3 = ''anthropic/claude-opus-4'')
   \<and> (startsWith m4 ''claude-'' \<and> \<not> startsWith m4 ''claude-opus-4''
        \<longrightarrow> mapModelName m4 = ''anthropic/claude-sonnet-4'')"
proof -
  have opus: "startsWith m3 ''claude-'' " if "startsWith m3 ''claude-opus-4''"
    using startsWith_trans [OF that, of "''claude-''"] by (simp add: startsWith_def)
  have a: "handler_mapModelName ''claude-3-5-sonnet-20241022'' = ''anthropic/claude-3.5-sonnet''"
    by (simp add: handler_mapModelName_def startsWith_def)
  have b: "handler_mapModelName ''claude-opus-4-20250101'' = ''anthropic/claude-opus-4''"
    by (simp add: handler_mapModelName_def startsWith_def)
  have c: "startsWith m1 ''claude-'' \<and> list_all (\<lambda>p. \<not> startsWith m1 p) table_prefixes
        \<longrightarrow> handler_mapModelName m1 = ''anthropic/'' @ m1"
    by (simp add: handler_mapModelName_def table_prefixes_def)
  have d: "\<not> startsWith m2 ''claude-'' \<longrightarrow> handler_mapModelName m2 = m2"
    by (simp add: handler_mapModelName_def)
  have e: "\<not> startsWith m2 ''claude-'' \<longrightarrow> mapModelName m2 = m2"
    by (simp add: mapModelName_def)
  have f: "startsWith m3 ''claude-opus-4'' \<longrightarrow> mapModelName m3 = ''anthropic/claude-opus-4''"
    using opus by (simp add: mapModelName_def)
  have g: "startsWith m4 ''claude-'' \<and> \<not> startsWith m4 ''claude-opus-4''
        \<longrightarrow> mapModelName m4 = ''anthropic/claude-sonnet-4''"
    by (simp add: mapModelName_def)
  from a b c d e f g show ?thesis by blast
qed

theorem C1_mapModelName_witness:
  "startsWith ''claude-2.1'' ''claude-''
   \<and> list_all (\<lambda>p. \<not> startsWith ''claude-2.1'' p) table_prefixes
   \<and> handler_mapModelName ''claude-2.1'' = ''anthropic/claude-2.1''
   \<and> \<not> startsWith ''gpt-4'' ''claude-''
   \<and> handler_mapModelName ''gpt-4'' = ''gpt-4''
   \<and> mapModelName ''gpt-4'' = ''gpt-4''
   \<and> startsWith ''claude-opus-4-20250101'' ''claude-opus-4''
   \<and> mapModelName ''claude-opus-4-20250101'' = ''anthropic/claude-opus-4''
   \<and> \<not> startsWith ''claude-3-haiku'' ''claude-opus-4''
   \<and> mapModelName ''claude-3-haiku'' = ''anthropic/claude-sonnet-4''"
  using C1_mapModelName [of "''claude-2.1''" "''gpt-4''" "''claude-opus-4-20250101''"
      "''claude-3-haiku''"]
  by (simp add: startsWith_def table_prefixes_def)

section \<open>Facts about values\<close>

lemma get_not_nullish: "get v k \<noteq> JUndefined \<Longrightarrow> \<not> nullish v"
  by (cases v) auto

section \<open>Stop reasons\<close>

lemma stopReason_string:
  "s \<notin> set object_prototype_names \<Longrightarrow> stopReason rt (JStr s) = JStr (spec_stop_reason s)"
  by (simp add: stopReason_def stop_reason_table_def spec_stop_reason_def js_or_def
      object_prototype_names_def)

lemma spec_stop_reason_closed:
  "spec_stop_reason s \<in> {''end_turn'', ''max_tokens'', ''tool_use''}"
  by (simp add: spec_stop_reason_def)

lemma convertOpenAIToClaude_stop_reason:
  assumes "convertOpenAIToClaude rt resp req = Inr r"
  shows "get r ''stop_reason'' =
           stopReason rt (js_or (get (first_elem (get resp ''choices'')) ''finish_reason'')
                            (JStr ''stop''))"
proof -
  have t: "truthy (get resp ''choices'')"
  proof (rule ccontr)
    assume "\<not> truthy (get resp ''choices'')"
    then have "convertOpenAIToClaude rt resp req = Inl TypeError
        \<or> convertOpenAIToClaude rt resp req = Inl (Error ''No choices in OpenAI response'')"
      by (simp add: convertOpenAIToClaude_def js_or_def)
    with assms show False by auto
  qed
  then have c: "js_or (get resp ''choices'') (JArr []) = get resp ''choices''"
    by (simp add: js_or_def)
  from assms show ?thesis
    unfolding convertOpenAIToClaude_def c Let_def
    by (auto split: if_splits sum.splits)
qed

lemma sample_conversions:
  "convertOpenAIToClaude sample_runtime (sample_completion (JStr ''length'')) sample_request
   = Inr (sample_converted ''max_tokens'')"
  "convertOpenAIToClaude sample_runtime (sample_completion JNull) sample_request
   = Inr (sample_converted ''end_turn'')"
  "convertToClaude sample_runtime
     (JObj [(''id'', JStr ''gen-1''), (''model'', JStr ''m''), (''content'', JStr ''Hi'')])
   = Inr (sample_converted ''end_turn'')"
  by (simp_all add: convertOpenAIToClaude_def convertToClaude_def js_or_def opt_get_def
      stopReason_def stop_reason_table_def sample_completion_def sample_converted_def
      sample_request_def object_prototype_names_def)

text \<open>
  C2 (amended). In \<open>convertOpenAIToClaude\<close> the stop reason of the converted response
  is the specification's table applied to the finish reason of the first choice, hence one
  of \<open>end_turn\<close>, \<open>max_tokens\<close>, \<open>tool_use\<close>, for every finish reason that is a string
  other than the names of the properties of \<open>Object.prototype\<close>; an absent or falsy
  finish reason gives \<open>end_turn\<close>. The transformers (\<open>convertToClaude\<close> and
  \<open>AnthropicTransformer.transformResponseIn\<close>) do not read a finish reason: the stop
  reason they write is always \<open>end_turn\<close>.
\<close>

theorem C2_stop_reason:
  "(convertOpenAIToClaude rt resp1 req1 = Inr r1
      \<and> get (first_elem (get resp1 ''choices'')) ''finish_reason'' = JStr s
      \<and> s \<notin> set object_prototype_names
     \<longrightarrow> get r1 ''stop_reason'' = JStr (spec_stop_reason s)
        \<and> spec_stop_reason s \<in> {''end_turn'', ''max_tokens'', ''tool_use''})
   \<and> (convertOpenAIToClaude rt resp2 req2 = Inr r2
      \<and> \<not> truthy (get (first_elem (get resp2 ''choices'')) ''finish_reason'')
     \<longrightarrow> get r2 ''stop_reason'' = JStr ''end_turn'')
   \<and> (convertToClaude rt u3 = Inr r3 \<longrightarrow> get r3 ''stop_reason'' = JStr ''end_turn'')
   \<and> (Anthropic_transformResponseIn rt u4 = Inr r4
     \<longrightarrow> get r4 ''stop_reason'' = JStr ''end_turn'')"
proof (intro conjI impI)
  assume a: "convertOpenAIToClaude rt resp1 req1 = Inr r1
      \<and> get (first_elem (get resp1 ''choices'')) ''finish_reason'' = JStr s
      \<and> s \<notin> set object_prototype_names"
  then have "get r1 ''stop_reason'' = stopReason rt (js_or (JStr s) (JStr ''stop''))"
    using convertOpenAIToClaude_stop_reason [of rt resp1 req1 r1] by simp
  also have "\<dots> = JStr (spec_stop_reason s)"
  proof (cases "s = []")
    case True
    then show ?thesis
      by (simp add: js_or_def stopReason_def stop_reason_table_def spec_stop_reason_def)
  next
    case False
    with a show ?thesis by (simp add: js_or_def stopReason_string)
  qed
  finally show "get r1 ''stop_reason'' = JStr (spec_stop_reason s)" .
next
  show "spec_stop_reason s \<in> {''end_turn'', ''max_tokens'', ''tool_use''}"
    by (rule spec_stop_reason_closed)
next
  assume "convertOpenAIToClaude rt resp2 req2 = Inr r2
      \<and> \<not> truthy (get (first_elem (get resp2 ''choices'')) ''finish_reason'')"
  then show "get r2 ''stop_reason'' = JStr ''end_turn''"
    using convertOpenAIToClaude_stop_reason [of rt resp2 req2 r2]
    by (simp add: js_or_def stopReason_def stop_reason_table_def)
next
  assume "convertToClaude rt u3 = Inr r3"
  then show "get r3 ''stop_reason'' = JStr ''end_turn''"
    by (auto simp: convertToClaude_def Let_def split: if_splits)
next
  assume "Anthropic_transformResponseIn rt u4 = Inr r4"
  then show "get r4 ''stop_reason'' = JStr ''end_turn''"
    by (auto simp: Anthropic_transformResponseIn_def split: if_splits)
qed

text \<open>
  The witness: the handler converts a completion that finished with \<open>length\<close> with stop
  reason \<open>max_tokens\<close> and one whose finish reason is \<open>null\<close> with \<open>end_turn\<close>; the
  transformers write \<open>end_turn\<close>.
\<close>

theorem C2_stop_reason_witness:
  "convertOpenAIToClaude sample_runtime (sample_completion (JStr ''length'')) sample_request
     = Inr (sample_converted ''max_tokens'')
   \<and> ''length'' \<notin> set object_prototype_names
   \<and> get (sample_converted ''max_tokens'') ''stop_reason'' = JStr (spec_stop_reason ''length'')
   \<and> convertOpenAIToClaude sample_runtime (sample_completion JNull) sample_request
     = Inr (sample_converted ''end_turn'')
   \<and> convertToClaude sample_runtime
       (JObj [(''id'', JStr ''gen-1''), (''model'', JStr ''m''), (''content'', JStr ''Hi'')])
     = Inr (sample_converted ''end_turn'')
   \<and> (\<exists>r. Anthropic_transformResponseIn sample_runtime
              (JObj [(''id'', JStr ''gen-1''), (''content'', JStr ''Hi'')]) = Inr r
          \<and> get r ''stop_reason'' = JStr ''end_turn'')
   \<and> get (sample_converted ''end_turn'') ''stop_reason'' = JStr ''end_turn''"
  using C2_stop_reason [where rt = sample_runtime
      and ?resp1.0 = "sample_completion (JStr ''length'')" and ?req1.0 = sample_request
      and ?r1.0 = "sample_converted ''max_tokens''" and s = "''length''"
      and ?resp2.0 = "sample_completion JNull" and ?req2.0 = sample_request
      and ?r2.0 = "sample_converted ''end_turn''"
      and ?u3.0 = "JObj [(''id'', JStr ''gen-1''), (''model'', JStr ''m''),
                         (''content'', JStr ''Hi'')]"
      and ?r3.0 = "sample_converted ''end_turn''"
      and ?u4.0 = "JObj [(''id'', JStr ''gen-1''), (''content'', JStr ''Hi'')]"]
    sample_conversions
  by (simp add: sample_completion_def object_prototype_names_def spec_stop_reason_def
      Anthropic_transformResponseIn_def sample_converted_def)

text \<open>
  C2 (as stated, refuted on the transformers). On the route from \<open>anthropic\<close> to
  \<open>openrouter\<close>, a provider response whose finish reason is \<open>length\<close> comes back
  with stop reason \<open>end_turn\<close>, not \<open>max_tokens\<close>.
\<close>

theorem C2_transformer_counterexample:
  "cross_response sample_runtime AnthropicTransformer OpenRouterTransformer
     (sample_completion (JStr ''length''))
   = Inr (JObj
       [(''id'', JStr ''gen-1''), (''type'', JStr ''message''),
        (''role'', JStr ''assistant''),
        (''content'', JArr [JObj [(''type'', JStr ''text''), (''text'', JStr ''Hi'')]]),
        (''stop_reason'', JStr ''end_turn''), (''stop_sequence'', JNull),
        (''usage'', JObj [(''input_tokens'', JNum 0), (''output_tokens'', JNum 0)])])
   \<and> JStr ''end_turn'' \<noteq> JStr (spec_stop_reason ''length'')"
  by (simp add: cross_response_def transformResponseOut_def transformResponseIn_def
      OpenRouter_transformResponseOut_def Anthropic_transformResponseIn_def js_or_def
      opt_get_def opt_first_def spec_stop_reason_def sample_completion_def)

text \<open>
  What the amended claim leaves out: a finish reason that names an inherited property of
  the table object is not mapped to \<open>end_turn\<close>; the lookup finds the built-in.
\<close>

lemma stop_reason_inherited_name:
  "stopReason rt (JStr ''constructor'') = JNative ''constructor''"
  by (simp add: stopReason_def stop_reason_table_def js_or_def object_prototype_names_def)

section \<open>Lowering of tool results, lifting of provider responses\<close>

text \<open>
  C8. A message whose content is the block list with the single block
  \<open>{tool_result, tool_use_id, content}\<close>, the content a string, lowers to
  \<open>{role: "tool", tool_call_id, content}\<close> with the id and the string carried over,
  whatever the role and the other properties of the message; so does the list holding it.
  The claim's message is the instance with id \<open>t1\<close> and content \<open>42\<close>.
\<close>

theorem C8_tool_result_lowering:
  "get message ''content'' = JArr [block]
     \<and> get block ''type'' = JStr ''tool_result''
     \<and> get block ''tool_use_id'' = tid
     \<and> get block ''content'' = JStr c
   \<longrightarrow> transformMessage rt message
         = Inr (JObj [(''role'', JStr ''tool''), (''tool_call_id'', tid), (''content'', JStr c)])
       \<and> transformMessagesToOpenAI rt (JArr [message])
         = Inr (JArr [JObj [(''role'', JStr ''tool''), (''tool_call_id'', tid),
                            (''content'', JStr c)]])"
proof (intro impI)
  assume a: "get message ''content'' = JArr [block]
     \<and> get block ''type'' = JStr ''tool_result''
     \<and> get block ''tool_use_id'' = tid
     \<and> get block ''content'' = JStr c"
  then have m: "\<not> nullish message" using get_not_nullish [of message "''content''"] by simp
  from a have b: "\<not> nullish block" using get_not_nullish [of block "''type''"] by simp
  have step: "block_step rt (JStr [], JStr [], False) block = Inr (JStr c, tid, True)"
    using a b by (simp add: block_step_def)
  have one: "transformMessage rt message
         = Inr (JObj [(''role'', JStr ''tool''), (''tool_call_id'', tid), (''content'', JStr c)])"
    using a m step by (simp add: transformMessage_def)
  then show "transformMessage rt message
         = Inr (JObj [(''role'', JStr ''tool''), (''tool_call_id'', tid), (''content'', JStr c)])
       \<and> transformMessagesToOpenAI rt (JArr [message])
         = Inr (JArr [JObj [(''role'', JStr ''tool''), (''tool_call_id'', tid),
                            (''content'', JStr c)]])"
    by (simp add: transformMessagesToOpenAI_def)
qed

text \<open>The witness: the claim's message, with role \<open>user\<close>.\<close>

theorem C8_tool_result_lowering_witness:
  "get (JObj [(''role'', JStr ''user''),
              (''content'', JArr [JObj [(''type'', JStr ''tool_result''),
                                        (''tool_use_id'', JStr ''t1''),
                                        (''content'', JStr ''42'')]])]) ''content''
     = JArr [JObj [(''type'', JStr ''tool_result''), (''tool_use_id'', JStr ''t1''),
                   (''content'', JStr ''42'')]]
   \<and> transformMessagesToOpenAI sample_runtime
       (JArr [JObj [(''role'', JStr ''user''),
                    (''content'', JArr [JObj [(''type'', JStr ''tool_result''),
                                              (''tool_use_id'', JStr ''t1''),
                                              (''content'', JStr ''42'')]])]])
     = Inr (JArr [JObj [(''role'', JStr ''tool''), (''tool_call_id'', JStr ''t1''),
                        (''content'', JStr ''42'')]])"
  using C8_tool_result_lowering [of
      "JObj [(''role'', JStr ''user''),
             (''content'', JArr [JObj [(''type'', JStr ''tool_result''),
                                       (''tool_use_id'', JStr ''t1''),
                                       (''content'', JStr ''42'')]])]"
      "JObj [(''type'', JStr ''tool_result''), (''tool_use_id'', JStr ''t1''),
             (''content'', JStr ''42'')]"
      "JStr ''t1''" "''42''" sample_runtime]
  by simp

text \<open>
  C4 (as stated, refuted). \<open>OpenRouterTransformer.transformResponseOut\<close> does not fail
  on a response whose \<open>choices\<close> is empty or absent: it returns a unified response
  whose content is the empty string.
\<close>

theorem C4_no_choices_counterexample:
  "OpenRouter_transformResponseOut sample_runtime
     (JObj [(''id'', JStr ''x''), (''choices'', JArr [])])
   = Inr (JObj [(''id'', JStr ''x''), (''model'', JUndefined), (''content'', JStr []),
                (''usage'', JUndefined)])
   \<and> OpenRouter_transformResponseOut sample_runtime (JObj [(''id'', JStr ''x'')])
   = Inr (JObj [(''id'', JStr ''x''), (''model'', JUndefined), (''content'', JStr []),
                (''usage'', JUndefined)])"
  by (simp add: OpenRouter_transformResponseOut_def js_or_def opt_get_def opt_first_def)

text \<open>
  C4 (amended). \<open>OpenRouterTransformer.transformResponseOut\<close> accepts a parsed
  response or its text: a text that parses to a value other than a string is lifted as
  that value is. A response that is not \<open>null\<close> or \<open>undefined\<close> and whose
  \<open>choices\<close> is absent or empty is lifted to a unified response with the empty string
  as content. The function fails only with a SyntaxError (the text does not parse) or a
  TypeError (the response is \<open>null\<close> or \<open>undefined\<close>). It is
  \<open>convertOpenAIToClaude\<close>, of the \<open>/v1/claude-to-openrouter\<close> handler, that fails on
  absent or empty \<open>choices\<close>, with the error \<open>No choices in OpenAI response\<close>.
\<close>

theorem C4_transformResponseOut:
  "(json_parse rt s = Some d \<and> \<not> is_string d
     \<longrightarrow> OpenRouter_transformResponseOut rt (JStr s) = OpenRouter_transformResponseOut rt d)
   \<and> (\<not> is_string d' \<and> \<not> nullish d'
       \<and> (get d' ''choices'' = JUndefined \<or> get d' ''choices'' = JArr [])
     \<longrightarrow> (\<exists>u. OpenRouter_transformResponseOut rt d' = Inr u \<and> get u ''content'' = JStr []))
   \<and> (OpenRouter_transformResponseOut rt v = Inl e \<longrightarrow> e = SyntaxError \<or> e = TypeError)
   \<and> (\<not> nullish resp \<and> (get resp ''choices'' = JUndefined \<or> get resp ''choices'' = JArr [])
     \<longrightarrow> convertOpenAIToClaude rt resp req = Inl (Error ''No choices in OpenAI response''))"
proof (intro conjI impI)
  assume "json_parse rt s = Some d \<and> \<not> is_string d"
  then show "OpenRouter_transformResponseOut rt (JStr s) = OpenRouter_transformResponseOut rt d"
    by (simp add: OpenRouter_transformResponseOut_def JSON_parse_def)
next
  assume "\<not> is_string d' \<and> \<not> nullish d'
       \<and> (get d' ''choices'' = JUndefined \<or> get d' ''choices'' = JArr [])"
  then show "\<exists>u. OpenRouter_transformResponseOut rt d' = Inr u \<and> get u ''content'' = JStr []"
    by (auto simp: OpenRouter_transformResponseOut_def js_or_def opt_get_def opt_first_def)
next
  assume "OpenRouter_transformResponseOut rt v = Inl e"
  then show "e = SyntaxError \<or> e = TypeError"
    by (auto simp: OpenRouter_transformResponseOut_def JSON_parse_def
        split: if_splits sum.splits option.splits)
next
  assume "\<not> nullish resp \<and> (get resp ''choices'' = JUndefined \<or> get resp ''choices'' = JArr [])"
  then show "convertOpenAIToClaude rt resp req = Inl (Error ''No choices in OpenAI response'')"
    by (auto simp: convertOpenAIToClaude_def js_or_def)
qed

text \<open>The witness: a response without \<open>choices\<close>, parsed and as text.\<close>

theorem C4_transformResponseOut_witness:
  \<open>json_parse sample_runtime ''{"id": "x"}'' = Some (JObj [(''id'', JStr ''x'')])
   \<and> OpenRouter_transformResponseOut sample_runtime (JStr ''{"id": "x"}'')
     = OpenRouter_transformResponseOut sample_runtime (JObj [(''id'', JStr ''x'')])
   \<and> get (JObj [(''id'', JStr ''x'')]) ''choices'' = JUndefined
   \<and> (\<exists>u. OpenRouter_transformResponseOut sample_runtime (JObj [(''id'', JStr ''x'')]) = Inr u
          \<and> get u ''content'' = JStr [])
   \<and> OpenRouter_transformResponseOut sample_runtime (JStr ''{"id": '') = Inl SyntaxError
   \<and> convertOpenAIToClaude sample_runtime (JObj [(''id'', JStr ''x'')]) JNull
     = Inl (Error ''No choices in OpenAI response'')\<close>
  using C4_transformResponseOut [of sample_runtime \<open>''{"id": "x"}''\<close>
      "JObj [(''id'', JStr ''x'')]" "JObj [(''id'', JStr ''x'')]"
      \<open>JStr ''{"id": ''\<close> SyntaxError "JObj [(''id'', JStr ''x'')]" JNull]
  by (simp add: sample_runtime_def sample_parse_def OpenRouter_transformResponseOut_def
      JSON_parse_def)

section \<open>Lowering of requests\<close>

lemma get_filter_undefined:
  "distinct (map fst kvs) \<Longrightarrow>
   get (JObj (filter (\<lambda>kv. snd kv \<noteq> JUndefined) kvs)) k = get (JObj kvs) k"
proof (induction kvs)
  case Nil
  then show ?case by simp
next
  case (Cons kv kvs)
  obtain k' v' where kv: "kv = (k', v')" by (cases kv)
  from Cons.prems have notin: "k' \<notin> fst ` set kvs" and d: "distinct (map fst kvs)"
    by (auto simp: kv)
  have none: "map_of (filter (\<lambda>kv. snd kv \<noteq> JUndefined) kvs) k' = None"
    using notin by (auto simp: map_of_eq_None_iff)
  have none': "map_of kvs k' = None"
    using notin by (simp add: map_of_eq_None_iff)
  from Cons.IH [OF d] have ih: "(case map_of (filter (\<lambda>kv. snd kv \<noteq> JUndefined) kvs) k of
        None \<Rightarrow> JUndefined | Some v \<Rightarrow> v) = (case map_of kvs k of None \<Rightarrow> JUndefined | Some v \<Rightarrow> v)"
    by simp
  show ?case
    using ih none none' by (auto simp: kv)
qed

text \<open>
  C10. Both lowerings substitute the defaults for falsy values, not only for absent ones:
  a request whose temperature is \<open>0\<close> is lowered with temperature \<open>0.7\<close>, and one
  whose \<open>max_tokens\<close> is \<open>0\<close> with \<open>max_tokens\<close> \<open>4096\<close>. This holds of
  \<open>OpenRouterTransformer.transformRequestIn\<close>, which returns whenever the model is a
  string and the lowerings of the messages and of the tools return, and of the request
  built by \<open>handleClaudeToOpenRouter\<close>, which is built whenever the model is a string.
\<close>

theorem C10_falsy_defaults:
  "(get r ''model'' = JStr m
     \<and> transformMessagesToOpenAI rt (get r ''messages'') = Inr ms
     \<and> transformToolsToOpenAI (get r ''tools'') = Inr ts
    \<longrightarrow> (\<exists>n. OpenRouter_transformRequestIn rt r = Inr n
          \<and> (get r ''temperature'' = JNum 0 \<longrightarrow> get n ''temperature'' = JNum (7 / 10))
          \<and> (get r ''max_tokens'' = JNum 0 \<longrightarrow> get n ''max_tokens'' = JNum 4096)))
   \<and> (get r ''model'' = JStr m
    \<longrightarrow> (\<exists>n. openRouterRequest r = Inr n
          \<and> (get r ''temperature'' = JNum 0 \<longrightarrow> get n ''temperature'' = JNum (7 / 10))
          \<and> (get r ''max_tokens'' = JNum 0 \<longrightarrow> get n ''max_tokens'' = JNum 4096)))"
proof (intro conjI impI)
  assume a: "get r ''model'' = JStr m
     \<and> transformMessagesToOpenAI rt (get r ''messages'') = Inr ms
     \<and> transformToolsToOpenAI (get r ''tools'') = Inr ts"
  then have nn: "\<not> nullish r" using get_not_nullish [of r "''model''"] by simp
  show "\<exists>n. OpenRouter_transformRequestIn rt r = Inr n
          \<and> (get r ''temperature'' = JNum 0 \<longrightarrow> get n ''temperature'' = JNum (7 / 10))
          \<and> (get r ''max_tokens'' = JNum 0 \<longrightarrow> get n ''max_tokens'' = JNum 4096)"
    using a nn
    by (simp add: OpenRouter_transformRequestIn_def call_mapModelName_def js_or_def)
next
  assume a: "get r ''model'' = JStr m"
  then have nn: "\<not> nullish r" using get_not_nullish [of r "''model''"] by simp
  have eq: "openRouterRequest r = Inr (JObj (filter (\<lambda>kv. snd kv \<noteq> JUndefined)
            [(''model'', JStr (handler_mapModelName m)),
             (''messages'', get r ''messages''),
             (''max_tokens'', js_or (get r ''max_tokens'') (JNum 4096)),
             (''temperature'', js_or (get r ''temperature'') (JNum (7 / 10))),
             (''top_p'', get r ''top_p''),
             (''stream'', js_or (get r ''stream'') (JBool False))]))"
    using a nn by (simp add: openRouterRequest_def)
  show "\<exists>n. openRouterRequest r = Inr n
          \<and> (get r ''temperature'' = JNum 0 \<longrightarrow> get n ''temperature'' = JNum (7 / 10))
          \<and> (get r ''max_tokens'' = JNum 0 \<longrightarrow> get n ''max_tokens'' = JNum 4096)"
    unfolding eq by (simp add: get_filter_undefined js_or_def)
qed

text \<open>The witness: a request with temperature \<open>0\<close> and \<open>max_tokens\<close> \<open>0\<close>.\<close>

theorem C10_falsy_defaults_witness:
  "get (JObj [(''model'', JStr ''claude-sonnet-4''),
              (''messages'', JArr [JObj [(''role'', JStr ''user''), (''content'', JStr ''Hello'')]]),
              (''max_tokens'', JNum 0), (''temperature'', JNum 0)]) ''temperature'' = JNum 0
   \<and> get (JObj [(''model'', JStr ''claude-sonnet-4''),
              (''messages'', JArr [JObj [(''role'', JStr ''user''), (''content'', JStr ''Hello'')]]),
              (''max_tokens'', JNum 0), (''temperature'', JNum 0)]) ''max_tokens'' = JNum 0
   \<and> (\<exists>n. OpenRouter_transformRequestIn sample_runtime
            (JObj [(''model'', JStr ''claude-sonnet-4''),
                   (''messages'', JArr [JObj [(''role'', JStr ''user''),
                                              (''content'', JStr ''Hello'')]]),
                   (''max_tokens'', JNum 0), (''temperature'', JNum 0)]) = Inr n
          \<and> get n ''temperature'' = JNum (7 / 10) \<and> get n ''max_tokens'' = JNum 4096)
   \<and> (\<exists>n. openRouterRequest
            (JObj [(''model'', JStr ''claude-sonnet-4''),
                   (''messages'', JArr [JObj [(''role'', JStr ''user''),
                                              (''content'', JStr ''Hello'')]]),
                   (''max_tokens'', JNum 0), (''temperature'', JNum 0)]) = Inr n
          \<and> get n ''temperature'' = JNum (7 / 10) \<and> get n ''max_tokens'' = JNum 4096)"
  using C10_falsy_defaults [of
      "JObj [(''model'', JStr ''claude-sonnet-4''),
             (''messages'', JArr [JObj [(''role'', JStr ''user''), (''content'', JStr ''Hello'')]]),
             (''max_tokens'', JNum 0), (''temperature'', JNum 0)]"
      "''claude-sonnet-4''" sample_runtime
      "JArr [JObj [(''role'', JStr ''user''), (''content'', JStr ''Hello'')]]" JUndefined]
  by (auto simp: transformMessagesToOpenAI_def transformMessage_def transformToolsToOpenAI_def)

lemma blocks_loop_kept:
  "list_all kept_block blocks \<Longrightarrow> blocks_loop rt st blocks = Inr st"
proof (induction blocks)
  case Nil
  show ?case by simp
next
  case (Cons b blocks)
  then have "block_step rt st b = Inr st"
    by (cases st) (simp add: block_step_def kept_block_def)
  with Cons show ?case by simp
qed

lemma obj_set_same: "map_of kvs k = Some v \<Longrightarrow> obj_set k v kvs = kvs"
  by (induction kvs) (auto split: if_splits)

lemma transformMessage_kept:
  assumes "kept_message message"
  shows "transformMessage rt message = Inr message"
proof (cases "get message ''content''")
  case (JArr blocks)
  then obtain kvs where m: "message = JObj kvs"
    by (cases message) (auto split: if_splits)
  with JArr have look: "map_of kvs ''content'' = Some (JArr blocks)"
    by (auto split: option.splits)
  from assms JArr have "list_all kept_block blocks"
    by (simp add: kept_message_def)
  then have "blocks_loop rt (JStr [], JStr [], False) blocks = Inr (JStr [], JStr [], False)"
    by (rule blocks_loop_kept)
  with JArr look show ?thesis
    by (simp add: transformMessage_def m js_or_def obj_set_same)
qed (use assms in \<open>auto simp: transformMessage_def kept_message_def\<close>)

lemma map_result_kept:
  "list_all kept_message ms \<Longrightarrow> map_result (transformMessage rt) ms = Inr ms"
  by (induction ms) (simp_all add: transformMessage_kept)

text \<open>
  C7 (amended). For the Anthropic transformer, lowering any request that is not \<open>null\<close>
  or \<open>undefined\<close> and lifting the result gives back its model, messages,
  \<open>max_tokens\<close>, temperature, stream flag and tools unchanged. For the OpenRouter
  transformer, whenever the model is a string and the lowerings of the messages and of the
  tools return, lowering and lifting returns: the model is the mapped name,
  \<open>max_tokens\<close>, temperature and the stream flag are the request's or, where those are
  falsy, \<open>4096\<close>, \<open>0.7\<close> and \<open>false\<close>, and the messages and the tools are what
  \<open>transformMessagesToOpenAI\<close> and \<open>transformToolsToOpenAI\<close> made of them. The messages
  are unchanged when the content of every message is not a block list, or is a block list
  with no \<open>text\<close> and no \<open>tool_result\<close> block; the tools are unchanged when they are
  absent or the empty list; falsy tools come back \<open>undefined\<close>.
\<close>

theorem C7_round_trip:
  "(\<not> nullish r
     \<longrightarrow> (\<exists>n u. Anthropic_transformRequestIn r = Inr n
            \<and> Anthropic_transformRequestOut n = Inr u
            \<and> get u ''model'' = get r ''model''
            \<and> get u ''messages'' = get r ''messages''
            \<and> get u ''max_tokens'' = get r ''max_tokens''
            \<and> get u ''temperature'' = get r ''temperature''
            \<and> get u ''stream'' = get r ''stream''
            \<and> get u ''tools'' = get r ''tools''))
   \<and> (get r1 ''model'' = JStr m1
       \<and> transformMessagesToOpenAI rt (get r1 ''messages'') = Inr lowered
       \<and> transformToolsToOpenAI (get r1 ''tools'') = Inr wrapped
     \<longrightarrow> (\<exists>n u. OpenRouter_transformRequestIn rt r1 = Inr n
            \<and> OpenRouter_transformRequestOut n = Inr u
            \<and> get u ''model'' = JStr (mapModelName m1)
            \<and> get u ''messages'' = lowered
            \<and> get u ''max_tokens'' = js_or (get r1 ''max_tokens'') (JNum 4096)
            \<and> get u ''temperature'' = js_or (get r1 ''temperature'') (JNum (7 / 10))
            \<and> get u ''stream'' = js_or (get r1 ''stream'') (JBool False)
            \<and> get u ''tools'' = wrapped))
   \<and> (get r2 ''model'' = JStr m2 \<and> get r2 ''messages'' = JArr ms
       \<and> list_all kept_message ms
       \<and> (get r2 ''tools'' = JUndefined \<or> get r2 ''tools'' = JArr [])
     \<longrightarrow> (\<exists>n u. OpenRouter_transformRequestIn rt r2 = Inr n
            \<and> OpenRouter_transformRequestOut n = Inr u
            \<and> get u ''model'' = JStr (mapModelName m2)
            \<and> get u ''messages'' = get r2 ''messages''
            \<and> get u ''max_tokens'' = js_or (get r2 ''max_tokens'') (JNum 4096)
            \<and> get u ''temperature'' = js_or (get r2 ''temperature'') (JNum (7 / 10))
            \<and> get u ''stream'' = js_or (get r2 ''stream'') (JBool False)
            \<and> get u ''tools'' = get r2 ''tools''))
   \<and> (\<not> truthy tools \<longrightarrow> transformToolsToOpenAI tools = Inr JUndefined)"
proof -
  have general: "\<exists>n u. OpenRouter_transformRequestIn rt q = Inr n
            \<and> OpenRouter_transformRequestOut n = Inr u
            \<and> get u ''model'' = JStr (mapModelName m)
            \<and> get u ''messages'' = lo
            \<and> get u ''max_tokens'' = js_or (get q ''max_tokens'') (JNum 4096)
            \<and> get u ''temperature'' = js_or (get q ''temperature'') (JNum (7 / 10))
            \<and> get u ''stream'' = js_or (get q ''stream'') (JBool False)
            \<and> get u ''tools'' = wr"
    if "get q ''model'' = JStr m" "transformMessagesToOpenAI rt (get q ''messages'') = Inr lo"
      "transformToolsToOpenAI (get q ''tools'') = Inr wr" for q m lo wr
  proof -
    from that(1) have "\<not> nullish q" using get_not_nullish [of q "''model''"] by simp
    with that show ?thesis
      by (simp add: OpenRouter_transformRequestIn_def OpenRouter_transformRequestOut_def
          call_mapModelName_def)
  qed
  have a: "\<not> nullish r
     \<longrightarrow> (\<exists>n u. Anthropic_transformRequestIn r = Inr n
            \<and> Anthropic_transformRequestOut n = Inr u
            \<and> get u ''model'' = get r ''model''
            \<and> get u ''messages'' = get r ''messages''
            \<and> get u ''max_tokens'' = get r ''max_tokens''
            \<and> get u ''temperature'' = get r ''temperature''
            \<and> get u ''stream'' = get r ''stream''
            \<and> get u ''tools'' = get r ''tools'')"
    by (simp add: Anthropic_transformRequestIn_def Anthropic_transformRequestOut_def)
  have b: "get r1 ''model'' = JStr m1
       \<and> transformMessagesToOpenAI rt (get r1 ''messages'') = Inr lowered
       \<and> transformToolsToOpenAI (get r1 ''tools'') = Inr wrapped
     \<longrightarrow> (\<exists>n u. OpenRouter_transformRequestIn rt r1 = Inr n
            \<and> OpenRouter_transformRequestOut n = Inr u
            \<and> get u ''model'' = JStr (mapModelName m1)
            \<and> get u ''messages'' = lowered
            \<and> get u ''max_tokens'' = js_or (get r1 ''max_tokens'') (JNum 4096)
            \<and> get u ''temperature'' = js_or (get r1 ''temperature'') (JNum (7 / 10))
            \<and> get u ''stream'' = js_or (get r1 ''stream'') (JBool False)
            \<and> get u ''tools'' = wrapped)"
    using general [of r1 m1 lowered wrapped] by blast
  have c: "get r2 ''model'' = JStr m2 \<and> get r2 ''messages'' = JArr ms
       \<and> list_all kept_message ms
       \<and> (get r2 ''tools'' = JUndefined \<or> get r2 ''tools'' = JArr [])
     \<longrightarrow> (\<exists>n u. OpenRouter_transformRequestIn rt r2 = Inr n
            \<and> OpenRouter_transformRequestOut n = Inr u
            \<and> get u ''model'' = JStr (mapModelName m2)
            \<and> get u ''messages'' = get r2 ''messages''
            \<and> get u ''max_tokens'' = js_or (get r2 ''max_tokens'') (JNum 4096)
            \<and> get u ''temperature'' = js_or (get r2 ''temperature'') (JNum (7 / 10))
            \<and> get u ''stream'' = js_or (get r2 ''stream'') (JBool False)
            \<and> get u ''tools'' = get r2 ''tools'')"
  proof
    assume h: "get r2 ''model'' = JStr m2 \<and> get r2 ''messages'' = JArr ms
       \<and> list_all kept_message ms
       \<and> (get r2 ''tools'' = JUndefined \<or> get r2 ''tools'' = JArr [])"
    then have msgs: "transformMessagesToOpenAI rt (get r2 ''messages'') = Inr (get r2 ''messages'')"
      by (simp add: transformMessagesToOpenAI_def map_result_kept)
    from h have tools: "transformToolsToOpenAI (get r2 ''tools'') = Inr (get r2 ''tools'')"
      by (auto simp: transformToolsToOpenAI_def)
    from h general [OF _ msgs tools, of m2]
    show "\<exists>n u. OpenRouter_transformRequestIn rt r2 = Inr n
            \<and> OpenRouter_transformRequestOut n = Inr u
            \<and> get u ''model'' = JStr (mapModelName m2)
            \<and> get u ''messages'' = get r2 ''messages''
            \<and> get u ''max_tokens'' = js_or (get r2 ''max_tokens'') (JNum 4096)
            \<and> get u ''temperature'' = js_or (get r2 ''temperature'') (JNum (7 / 10))
            \<and> get u ''stream'' = js_or (get r2 ''stream'') (JBool False)
            \<and> get u ''tools'' = get r2 ''tools''"
      by blast
  qed
  have d: "\<not> truthy tools \<longrightarrow> transformToolsToOpenAI tools = Inr JUndefined"
    by (simp add: transformToolsToOpenAI_def)
  from a b c d show ?thesis by blast
qed

text \<open>
  The witness: the request of the specification's end-to-end scenario; the counterexample's
  request, which comes back lowered; and a request with a \<open>tool_use\<close> block list and an
  empty tool list, which comes back as it was.
\<close>

theorem C7_round_trip_witness:
  "(\<exists>n u. Anthropic_transformRequestIn scenario_request = Inr n
          \<and> Anthropic_transformRequestOut n = Inr u
          \<and> get u ''model'' = JStr ''claude-sonnet-4''
          \<and> get u ''max_tokens'' = JNum 1000)
   \<and> transformMessagesToOpenAI sample_runtime (get blocks_request ''messages'')
     = Inr (JArr [JObj [(''role'', JStr ''user''), (''content'', JStr ''Hello'')]])
   \<and> transformToolsToOpenAI (get blocks_request ''tools'')
     = Inr (JArr [JObj [(''type'', JStr ''function''),
                        (''function'', JObj [(''name'', JStr ''f''),
                                             (''description'', JStr ''d''),
                                             (''parameters'', JObj [])])]])
   \<and> (\<exists>n u. OpenRouter_transformRequestIn sample_runtime blocks_request = Inr n
          \<and> OpenRouter_transformRequestOut n = Inr u
          \<and> get u ''model'' = JStr ''gpt-4''
          \<and> get u ''messages''
              = JArr [JObj [(''role'', JStr ''user''), (''content'', JStr ''Hello'')]]
          \<and> get u ''temperature'' = JNum (7 / 10))
   \<and> list_all kept_message
        [JObj [(''role'', JStr ''user''), (''content'', JStr ''Hello'')],
         JObj [(''role'', JStr ''assistant''),
               (''content'', JArr [JObj [(''type'', JStr ''tool_use''), (''id'', JStr ''u1''),
                                         (''name'', JStr ''f''), (''input'', JObj [])]])]]
   \<and> (\<exists>n u. OpenRouter_transformRequestIn sample_runtime kept_request = Inr n
          \<and> OpenRouter_transformRequestOut n = Inr u
          \<and> get u ''model'' = JStr ''anthropic/claude-sonnet-4''
          \<and> get u ''messages'' = get kept_request ''messages''
          \<and> get u ''max_tokens'' = JNum 1000
          \<and> get u ''temperature'' = JNum (7 / 10)
          \<and> get u ''tools'' = JArr [])
   \<and> transformToolsToOpenAI JNull = Inr JUndefined"
proof -
  have lo: "transformMessagesToOpenAI sample_runtime (get blocks_request ''messages'')
     = Inr (JArr [JObj [(''role'', JStr ''user''), (''content'', JStr ''Hello'')]])"
    by (simp add: blocks_request_def transformMessagesToOpenAI_def transformMessage_def
        block_step_def js_add_def js_or_def)
  have wr: "transformToolsToOpenAI (get blocks_request ''tools'')
     = Inr (JArr [JObj [(''type'', JStr ''function''),
                        (''function'', JObj [(''name'', JStr ''f''),
                                             (''description'', JStr ''d''),
                                             (''parameters'', JObj [])])]])"
    by (simp add: blocks_request_def transformToolsToOpenAI_def transformTool_def)
  have kept: "list_all kept_message
        [JObj [(''role'', JStr ''user''), (''content'', JStr ''Hello'')],
         JObj [(''role'', JStr ''assistant''),
               (''content'', JArr [JObj [(''type'', JStr ''tool_use''), (''id'', JStr ''u1''),
                                         (''name'', JStr ''f''), (''input'', JObj [])]])]]"
    by (simp add: kept_message_def kept_block_def)
  have facts: "\<not> nullish scenario_request" "get blocks_request ''model'' = JStr ''gpt-4''"
    "get kept_request ''model'' = JStr ''claude-sonnet-4''"
    "get kept_request ''messages'' = JArr
        [JObj [(''role'', JStr ''user''), (''content'', JStr ''Hello'')],
         JObj [(''role'', JStr ''assistant''),
               (''content'', JArr [JObj [(''type'', JStr ''tool_use''), (''id'', JStr ''u1''),
                                         (''name'', JStr ''f''), (''input'', JObj [])]])]]"
    "get kept_request ''tools'' = JArr []"
    "get kept_request ''max_tokens'' = JNum 1000"
    "get kept_request ''temperature'' = JUndefined"
    "get blocks_request ''temperature'' = JUndefined"
    "get scenario_request ''model'' = JStr ''claude-sonnet-4''"
    "get scenario_request ''max_tokens'' = JNum 1000"
    by (simp_all add: scenario_request_def blocks_request_def kept_request_def)
  have names: "mapModelName ''gpt-4'' = ''gpt-4''"
    "mapModelName ''claude-sonnet-4'' = ''anthropic/claude-sonnet-4''"
    by (simp_all add: mapModelName_def startsWith_def)
  from C7_round_trip [where r = scenario_request and ?r1.0 = blocks_request
      and ?m1.0 = "''gpt-4''" and rt = sample_runtime
      and lowered = "JArr [JObj [(''role'', JStr ''user''), (''content'', JStr ''Hello'')]]"
      and wrapped = "JArr [JObj [(''type'', JStr ''function''),
                        (''function'', JObj [(''name'', JStr ''f''),
                                             (''description'', JStr ''d''),
                                             (''parameters'', JObj [])])]]"
      and ?r2.0 = kept_request and ?m2.0 = "''claude-sonnet-4''"
      and ms = "[JObj [(''role'', JStr ''user''), (''content'', JStr ''Hello'')],
         JObj [(''role'', JStr ''assistant''),
               (''content'', JArr [JObj [(''type'', JStr ''tool_use''), (''id'', JStr ''u1''),
                                         (''name'', JStr ''f''), (''input'', JObj [])]])]]"
      and tools = JNull]
    lo wr kept facts names
  show ?thesis by (auto simp: js_or_def)
qed

text \<open>
  C7 (as stated, refuted for the OpenRouter transformer). A request with a block list as
  message content and with a tool does not come back: the content has become a string and
  the tool is in the provider's function form, which \<open>transformRequestOut\<close> copies as
  it is.
\<close>

theorem C7_openrouter_counterexample:
  "(\<exists>n u. OpenRouter_transformRequestIn sample_runtime
             (JObj [(''model'', JStr ''gpt-4''),
                    (''messages'', JArr [JObj [(''role'', JStr ''user''),
                       (''content'', JArr [JObj [(''type'', JStr ''text''),
                                                 (''text'', JStr ''Hello'')]])]]),
                    (''tools'', JArr [JObj [(''name'', JStr ''f''),
                                            (''description'', JStr ''d''),
                                            (''input_schema'', JObj [])]])]) = Inr n
          \<and> OpenRouter_transformRequestOut n = Inr u
          \<and> get u ''messages''
              = JArr [JObj [(''role'', JStr ''user''), (''content'', JStr ''Hello'')]]
          \<and> get u ''messages''
              \<noteq> JArr [JObj [(''role'', JStr ''user''),
                       (''content'', JArr [JObj [(''type'', JStr ''text''),
                                                 (''text'', JStr ''Hello'')]])]]
          \<and> get u ''tools''
              = JArr [JObj [(''type'', JStr ''function''),
                            (''function'', JObj [(''name'', JStr ''f''),
                                                 (''description'', JStr ''d''),
                                                 (''parameters'', JObj [])])]]
          \<and> get u ''tools''
              \<noteq> JArr [JObj [(''name'', JStr ''f''), (''description'', JStr ''d''),
                            (''input_schema'', JObj [])]])"
  by (simp add: OpenRouter_transformRequestIn_def OpenRouter_transformRequestOut_def
      call_mapModelName_def mapModelName_def startsWith_def transformMessagesToOpenAI_def
      transformMessage_def block_step_def js_add_def js_or_def transformToolsToOpenAI_def
      transformTool_def)

section \<open>The stream translator\<close>

lemma process_line_cases:
  "process_line rt req l = ([], False)
   \<or> (\<exists>c. process_line rt req l = ([(''content_block_delta'', c)], False))
   \<or> (\<exists>d. process_line rt req l = (terminal_events d, True))"
  by (auto simp: process_line_def Let_def split: sum.splits)

lemma terminal_types:
  "map fst (terminal_events d) = [''content_block_stop'', ''message_delta'', ''message_stop'']"
  by (simp add: terminal_events_def)

lemma process_lines_shape:
  "\<exists>n. map fst (fst (process_lines rt req ls))
        = replicate n ''content_block_delta''
          @ (if snd (process_lines rt req ls)
             then [''content_block_stop'', ''message_delta'', ''message_stop''] else [])"
proof (induction ls)
  case Nil
  show ?case by simp
next
  case (Cons l ls)
  then obtain n where ih: "map fst (fst (process_lines rt req ls))
        = replicate n ''content_block_delta''
          @ (if snd (process_lines rt req ls)
             then [''content_block_stop'', ''message_delta'', ''message_stop''] else [])"
    by blast
  from process_line_cases [of rt req l] show ?case
  proof (elim disjE exE)
    assume "process_line rt req l = ([], False)"
    with ih show ?thesis by (auto simp: split_def)
  next
    fix c assume "process_line rt req l = ([(''content_block_delta'', c)], False)"
    with ih have "map fst (fst (process_lines rt req (l # ls)))
        = replicate (Suc n) ''content_block_delta''
          @ (if snd (process_lines rt req (l # ls))
             then [''content_block_stop'', ''message_delta'', ''message_stop''] else [])"
      by (simp add: split_def)
    then show ?thesis by blast
  next
    fix d assume "process_line rt req l = (terminal_events d, True)"
    then have "map fst (fst (process_lines rt req (l # ls)))
        = replicate 0 ''content_block_delta''
          @ (if snd (process_lines rt req (l # ls))
             then [''content_block_stop'', ''message_delta'', ''message_stop''] else [])"
      by (simp add: terminal_types)
    then show ?thesis by blast
  qed
qed

lemma read_loop_shape:
  "\<exists>n. map fst (fst (read_loop rt req buf reads))
        = replicate n ''content_block_delta''
          @ (if snd (read_loop rt req buf reads) = Closed
             then [''content_block_stop'', ''message_delta'', ''message_stop''] else [])"
proof (induction reads arbitrary: buf)
  case Nil
  show ?case by simp
next
  case (Cons r reads)
  show ?case
  proof (cases r)
    case ReadError
    then show ?thesis by simp
  next
    case (Chunk v)
    define ls where "ls = butlast (split_nl (buf @ v))"
    define b' where "b' = (if split_nl (buf @ v) = [] then [] else last (split_nl (buf @ v)))"
    obtain n where n: "map fst (fst (process_lines rt req ls))
        = replicate n ''content_block_delta''
          @ (if snd (process_lines rt req ls)
             then [''content_block_stop'', ''message_delta'', ''message_stop''] else [])"
      using process_lines_shape [of rt req ls] by blast
    obtain m where m: "map fst (fst (read_loop rt req b' reads))
        = replicate m ''content_block_delta''
          @ (if snd (read_loop rt req b' reads) = Closed
             then [''content_block_stop'', ''message_delta'', ''message_stop''] else [])"
      using Cons.IH [of b'] by blast
    show ?thesis
    proof (cases "snd (process_lines rt req ls)")
      case True
      then have "read_loop rt req buf (r # reads) = (fst (process_lines rt req ls), Closed)"
        by (simp add: Chunk Let_def ls_def split_def)
      with n True show ?thesis by auto
    next
      case False
      then have eq: "read_loop rt req buf (r # reads)
          = (fst (process_lines rt req ls) @ fst (read_loop rt req b' reads),
             snd (read_loop rt req b' reads))"
        by (simp add: Chunk Let_def ls_def b'_def split_def)
      have "map fst (fst (read_loop rt req buf (r # reads)))
          = replicate (n + m) ''content_block_delta''
            @ (if snd (read_loop rt req buf (r # reads)) = Closed
               then [''content_block_stop'', ''message_delta'', ''message_stop''] else [])"
        using n m False by (simp add: eq replicate_add)
      then show ?thesis by blast
    qed
  qed
qed

lemma count_list_replicate_other: "x \<noteq> y \<Longrightarrow> count_list (replicate n x) y = 0"
  by (induction n) auto

lemma stream_start_shape:
  "\<exists>n. map fst (fst (stream_start rt req reader))
        = [''message_start'', ''content_block_start'']
          @ replicate n ''content_block_delta''
          @ (if snd (stream_start rt req reader) = Closed
             then [''content_block_stop'', ''message_delta'', ''message_stop''] else [])"
proof (cases reader)
  case None
  then have "map fst (fst (stream_start rt req reader))
        = [''message_start'', ''content_block_start'']
          @ replicate 0 ''content_block_delta''
          @ (if snd (stream_start rt req reader) = Closed
             then [''content_block_stop'', ''message_delta'', ''message_stop''] else [])"
    by (simp add: stream_start_def processStream_def)
  then show ?thesis by blast
next
  case (Some reads)
  obtain n where "map fst (fst (read_loop rt req [] reads))
        = replicate n ''content_block_delta''
          @ (if snd (read_loop rt req [] reads) = Closed
             then [''content_block_stop'', ''message_delta'', ''message_stop''] else [])"
    using read_loop_shape [of rt req "[]" reads] by blast
  then have "map fst (fst (stream_start rt req reader))
        = [''message_start'', ''content_block_start'']
          @ replicate n ''content_block_delta''
          @ (if snd (stream_start rt req reader) = Closed
             then [''content_block_stop'', ''message_delta'', ''message_stop''] else [])"
    by (simp add: stream_start_def processStream_def Some split_def)
  then show ?thesis by blast
qed

text \<open>
  C3. For every runtime, request and provider stream, with any chunking and with failed
  reads, the events that the translator emits contain a \<open>content_block_start\<close>, no
  \<open>content_block_delta\<close> before the first of them, at most one \<open>message_stop\<close>, and
  if one is emitted it is the last event.
\<close>

theorem C3_event_order:
  "''content_block_start'' \<in> set (map fst (fst (stream_start rt req reader)))
   \<and> ''content_block_delta''
       \<notin> set (takeWhile (\<lambda>t. t \<noteq> ''content_block_start'')
                (map fst (fst (stream_start rt req reader))))
   \<and> count_list (map fst (fst (stream_start rt req reader))) ''message_stop'' \<le> 1
   \<and> (''message_stop'' \<in> set (map fst (fst (stream_start rt req reader)))
        \<longrightarrow> last (map fst (fst (stream_start rt req reader))) = ''message_stop'')"
proof -
  obtain n where ts: "map fst (fst (stream_start rt req reader))
        = [''message_start'', ''content_block_start'']
          @ replicate n ''content_block_delta''
          @ (if snd (stream_start rt req reader) = Closed
             then [''content_block_stop'', ''message_delta'', ''message_stop''] else [])"
    using stream_start_shape [of rt req reader] by blast
  show ?thesis
    unfolding ts by (simp add: count_list_replicate_other)
qed

lemma process_lines_append:
  "process_lines rt req (xs @ ys)
   = (case process_lines rt req xs of
        (e, True) \<Rightarrow> (e, True)
      | (e, False) \<Rightarrow> (case process_lines rt req ys of (e', f) \<Rightarrow> (e @ e', f)))"
proof (induction xs)
  case Nil
  show ?case by (simp add: split_def)
next
  case (Cons x xs)
  show ?case
  proof (cases "process_line rt req x")
    case (Pair e f)
    show ?thesis
      using Cons.IH by (cases f) (auto simp: Pair split_def split: bool.splits)
  qed
qed

lemma malformed_line_skipped:
  "startsWith line ''data: '' \<Longrightarrow> trim (drop 6 line) \<noteq> ''[DONE]''
   \<Longrightarrow> json_parse rt (trim (drop 6 line)) = None
   \<Longrightarrow> process_line rt req line = ([], False)"
  by (simp add: process_line_def JSON_parse_def Let_def)

lemma process_lines_skip:
  "process_line rt req line = ([], False)
   \<Longrightarrow> process_lines rt req (xs @ line # ys) = process_lines rt req (xs @ ys)"
  by (simp add: process_lines_append [of rt req xs] split_def)

lemma split_nl_nonempty: "split_nl s \<noteq> []"
  by (induction s) (auto split: list.splits)

lemma split_nl_at_newline: "split_nl (a @ CHR 0x0A # b) = split_nl a @ split_nl b"
proof (induction a)
  case Nil
  show ?case by simp
next
  case (Cons c a)
  show ?case
  proof (cases "c = CHR 0x0A")
    case True
    with Cons show ?thesis by simp
  next
    case False
    obtain l ls where s: "split_nl a = l # ls"
      using split_nl_nonempty [of a] by (cases "split_nl a") auto
    with Cons False show ?thesis by simp
  qed
qed

lemma split_nl_no_newline: "CHR 0x0A \<notin> set s \<Longrightarrow> split_nl s = [s]"
  by (induction s) auto

lemma split_nl_append:
  "split_nl (x @ y) = butlast (split_nl x) @ split_nl (last (split_nl x) @ y)"
proof (induction x)
  case Nil
  show ?case by simp
next
  case (Cons c x)
  obtain l ls where s: "split_nl x = l # ls"
    using split_nl_nonempty [of x] by (cases "split_nl x") auto
  show ?case
  proof (cases "c = CHR 0x0A")
    case True
    with Cons s show ?thesis by simp
  next
    case False
    show ?thesis
    proof (cases ls)
      case Nil
      with Cons s False show ?thesis by simp
    next
      case (Cons l' ls')
      with Cons.IH s False show ?thesis by simp
    qed
  qed
qed

lemma last_split_nl_no_newline: "CHR 0x0A \<notin> set (last (split_nl s))"
proof (induction s)
  case Nil
  show ?case by simp
next
  case (Cons c s)
  obtain l ls where sp: "split_nl s = l # ls"
    using split_nl_nonempty [of s] by (cases "split_nl s") auto
  with Cons show ?case by (cases ls) auto
qed

lemma read_loop_chunks:
  "CHR 0x0A \<notin> set buf \<Longrightarrow>
   read_loop rt req buf (map Chunk cs)
   = (case process_lines rt req (butlast (split_nl (buf @ concat cs))) of
        (e, True) \<Rightarrow> (e, Closed)
      | (e, False) \<Rightarrow> (e, Left_open))"
proof (induction cs arbitrary: buf)
  case Nil
  then show ?case by (simp add: split_nl_no_newline)
next
  case (Cons c cs)
  have ne: "split_nl (buf @ c) \<noteq> []" by (rule split_nl_nonempty)
  have sp: "butlast (split_nl (buf @ c @ concat cs))
      = butlast (split_nl (buf @ c)) @ butlast (split_nl (last (split_nl (buf @ c)) @ concat cs))"
    using split_nl_append [of "buf @ c" "concat cs"] split_nl_nonempty
    by (simp add: butlast_append)
  show ?case
    using Cons.IH [of "last (split_nl (buf @ c))"] ne last_split_nl_no_newline [of "buf @ c"]
    by (simp add: Let_def sp process_lines_append split_def split: bool.splits)
qed

lemma read_loop_errored:
  "snd (read_loop rt req buf reads) = Errored \<Longrightarrow> ReadError \<in> set reads"
proof (induction reads arbitrary: buf)
  case Nil
  then show ?case by simp
next
  case (Cons r reads)
  show ?case
  proof (cases r)
    case ReadError
    then show ?thesis by simp
  next
    case (Chunk v)
    with Cons.prems have "snd (read_loop rt req
        (if split_nl (buf @ v) = [] then [] else last (split_nl (buf @ v))) reads) = Errored"
      by (auto simp: Let_def split_def split: if_splits bool.splits)
    with Cons.IH show ?thesis by auto
  qed
qed

lemma process_line_events:
  "ev \<in> set (fst (process_line rt req l))
   \<Longrightarrow> fst ev = ''content_block_delta'' \<or> (\<exists>d. ev \<in> set (terminal_events d))"
  using process_line_cases [of rt req l] by auto

lemma process_lines_events:
  "ev \<in> set (fst (process_lines rt req ls))
   \<Longrightarrow> fst ev = ''content_block_delta'' \<or> (\<exists>d. ev \<in> set (terminal_events d))"
proof (induction ls)
  case Nil
  then show ?case by simp
next
  case (Cons l ls)
  then have "ev \<in> set (fst (process_line rt req l)) \<or> ev \<in> set (fst (process_lines rt req ls))"
    by (auto simp: split_def split: bool.splits if_splits)
  with Cons.IH process_line_events [of ev rt req l] show ?case by blast
qed

lemma read_loop_events:
  "ev \<in> set (fst (read_loop rt req buf reads))
   \<Longrightarrow> fst ev = ''content_block_delta'' \<or> (\<exists>d. ev \<in> set (terminal_events d))"
proof (induction reads arbitrary: buf)
  case Nil
  then show ?case by simp
next
  case (Cons r reads)
  show ?case
  proof (cases r)
    case ReadError
    with Cons.prems show ?thesis by simp
  next
    case (Chunk v)
    with Cons.prems have "ev \<in> set (fst (process_lines rt req (butlast (split_nl (buf @ v)))))
        \<or> ev \<in> set (fst (read_loop rt req
              (if split_nl (buf @ v) = [] then [] else last (split_nl (buf @ v))) reads))"
      by (auto simp: Let_def split_def split: bool.splits if_splits)
    with Cons.IH process_lines_events show ?thesis by blast
  qed
qed

text \<open>
  Whatever the provider sends, a \<open>message_delta\<close> of the translator carries the stop
  reason \<open>end_turn\<close>: no finish reason reaches it.
\<close>

lemma message_delta_stop_reason:
  assumes "ev \<in> set (fst (stream_start rt req reader))" and "fst ev = ''message_delta''"
  shows "get (get (snd ev) ''delta'') ''stop_reason'' = JStr ''end_turn''"
proof -
  from assms have "ev \<in> set (fst (processStream rt req reader))"
    by (auto simp: stream_start_def split_def)
  then have "fst ev = ''content_block_delta'' \<or> (\<exists>d. ev \<in> set (terminal_events d))"
    using read_loop_events [of ev rt req "[]"]
    by (cases reader) (auto simp: processStream_def)
  with assms(2) obtain d where "ev \<in> set (terminal_events d)" by auto
  with assms(2) show ?thesis by (auto simp: terminal_events_def)
qed

lemma sample_delta_line:
  "process_line sample_runtime sample_request delta_line
   = ([(''content_block_delta'',
        JObj [(''type'', JStr ''content_block_delta''), (''index'', JNum 0),
              (''delta'', JObj [(''type'', JStr ''text_delta''), (''text'', JStr ''Hi'')])])],
      False)"
  by (simp add: process_line_def delta_line_def startsWith_def trim_def is_space_def
      JSON_parse_def sample_runtime_def sample_parse_def convertOpenAIStreamToClaude_def
      greater_than_zero_def Let_def)

lemma sample_finish_line:
  "process_line sample_runtime sample_request finish_line
   = (terminal_events (JObj [(''type'', JStr ''message_stop'')]), True)"
  by (simp add: process_line_def finish_line_def startsWith_def trim_def is_space_def
      JSON_parse_def sample_runtime_def sample_parse_def convertOpenAIStreamToClaude_def
      greater_than_zero_def Let_def)

lemma sample_broken_line:
  "startsWith broken_line ''data: '' \<and> trim (drop 6 broken_line) \<noteq> ''[DONE]''
   \<and> json_parse sample_runtime (trim (drop 6 broken_line)) = None
   \<and> CHR 0x0A \<notin> set broken_line"
  by (simp add: broken_line_def startsWith_def trim_def is_space_def
      sample_runtime_def sample_parse_def)

lemma split_two_lines:
  "CHR 0x0A \<notin> set l1 \<Longrightarrow> CHR 0x0A \<notin> set l2 \<Longrightarrow>
   split_nl (l1 @ CHR 0x0A # l2 @ [CHR 0x0A]) = [l1, l2, []]"
  by (simp add: split_nl_at_newline split_nl_no_newline)

text \<open>
  C6 (the code at the failing input). The provider ends the stream with a chunk whose finish
  reason is \<open>length\<close>. The \<open>message_delta\<close> that the translator emits carries the
  stop reason \<open>end_turn\<close>, where the specification's table gives \<open>max_tokens\<close>:
  \<open>convertOpenAIStreamToClaude\<close> computes the mapped reason and returns only
  \<open>{type: 'message_stop'}\<close>, and \<open>processStream\<close> writes the constant.
\<close>

theorem C6_finish_reason_dropped:
  "stream_start sample_runtime sample_request (Some [Chunk (finish_line @ [CHR 0x0A])])
   = ([(''message_start'',
          JObj [(''type'', JStr ''message_start''),
                (''message'', JObj
                   [(''id'', JStr ''msg_r''),
                    (''type'', JStr ''message''),
                    (''role'', JStr ''assistant''),
                    (''model'', JStr ''m''),
                    (''content'', JArr []),
                    (''stop_reason'', JNull),
                    (''stop_sequence'', JNull),
                    (''usage'', JObj [(''input_tokens'', JNum 0),
                                      (''output_tokens'', JNum 0)])])]),
       (''content_block_start'',
          JObj [(''type'', JStr ''content_block_start''),
                (''index'', JNum 0),
                (''content_block'', JObj [(''type'', JStr ''text''), (''text'', JStr [])])]),
       (''content_block_stop'',
          JObj [(''type'', JStr ''content_block_stop''), (''index'', JNum 0)]),
       (''message_delta'',
          JObj [(''type'', JStr ''message_delta''),
                (''delta'', JObj [(''stop_reason'', JStr ''end_turn''),
                                  (''stop_sequence'', JNull)]),
                (''usage'', JObj [(''output_tokens'', JNum 0)])]),
       (''message_stop'', JObj [(''type'', JStr ''message_stop'')])],
      Closed)
   \<and> spec_stop_reason ''length'' = ''max_tokens''"
proof -
  have nl: "CHR 0x0A \<notin> set finish_line" by (simp add: finish_line_def)
  have "split_nl (finish_line @ [CHR 0x0A]) = [finish_line, []]"
    using split_nl_at_newline [of finish_line "[]"] nl by (simp add: split_nl_no_newline)
  then have rl: "read_loop sample_runtime sample_request [] [Chunk (finish_line @ [CHR 0x0A])]
      = (terminal_events (JObj [(''type'', JStr ''message_stop'')]), Closed)"
    by (simp add: sample_finish_line)
  have rid: "random_id sample_runtime 0 = ''r''" by (simp add: sample_runtime_def)
  have m: "get sample_request ''model'' = JStr ''m''" by (simp add: sample_request_def)
  show ?thesis
    by (simp add: stream_start_def processStream_def rl rid m terminal_events_def
        spec_stop_reason_def del: read_loop.simps)
qed

text \<open>
  The witness: a stream of a content fragment and a finish chunk, the second line split
  over two reads. A \<open>message_stop\<close> is emitted and is last.
\<close>

theorem C3_event_order_witness:
  "map fst (fst (stream_start sample_runtime sample_request
      (Some [Chunk (delta_line @ [CHR 0x0A] @ take 10 finish_line),
             Chunk (drop 10 finish_line @ [CHR 0x0A])])))
   = [''message_start'', ''content_block_start'', ''content_block_delta'',
      ''content_block_stop'', ''message_delta'', ''message_stop'']
   \<and> ''message_stop'' \<in> set (map fst (fst (stream_start sample_runtime sample_request
      (Some [Chunk (delta_line @ [CHR 0x0A] @ take 10 finish_line),
             Chunk (drop 10 finish_line @ [CHR 0x0A])]))))
   \<and> last (map fst (fst (stream_start sample_runtime sample_request
      (Some [Chunk (delta_line @ [CHR 0x0A] @ take 10 finish_line),
             Chunk (drop 10 finish_line @ [CHR 0x0A])])))) = ''message_stop''"
proof -
  have nl: "CHR 0x0A \<notin> set finish_line" "CHR 0x0A \<notin> set delta_line"
    by (simp_all add: finish_line_def delta_line_def)
  have rejoin: "take 10 finish_line @ drop 10 finish_line @ [CHR 0x0A]
      = finish_line @ [CHR 0x0A]"
    by (simp flip: append_assoc)
  have "read_loop sample_runtime sample_request []
          (map Chunk [delta_line @ [CHR 0x0A] @ take 10 finish_line,
                      drop 10 finish_line @ [CHR 0x0A]])
        = (case process_lines sample_runtime sample_request [delta_line, finish_line] of
             (e, True) \<Rightarrow> (e, Closed) | (e, False) \<Rightarrow> (e, Left_open))"
    using split_two_lines [OF nl(2) nl(1)]
    by (subst read_loop_chunks) (simp_all add: rejoin)
  then have ev: "map fst (fst (stream_start sample_runtime sample_request
      (Some [Chunk (delta_line @ [CHR 0x0A] @ take 10 finish_line),
             Chunk (drop 10 finish_line @ [CHR 0x0A])])))
   = [''message_start'', ''content_block_start'', ''content_block_delta'',
      ''content_block_stop'', ''message_delta'', ''message_stop'']"
    by (simp add: stream_start_def processStream_def sample_delta_line sample_finish_line
        terminal_events_def)
  from C3_event_order [of sample_runtime sample_request
      "Some [Chunk (delta_line @ [CHR 0x0A] @ take 10 finish_line),
             Chunk (drop 10 finish_line @ [CHR 0x0A])]"] ev
  show ?thesis by simp
qed

text \<open>
  C9. A \<open>data:\<close> line whose payload \<open>JSON.parse\<close> rejects is skipped. Among the lines
  of one read, the events emitted with the line are those emitted without it. For whole
  streams: if the text of one stream is that of another with such a line, and its line
  feed, inserted where a line begins, then both streams give the same events and end the
  same way, however they are cut into chunks. The stream ends in error only when a read fails.
\<close>

theorem C9_malformed_line_skipped:
  "(startsWith line ''data: '' \<and> trim (drop 6 line) \<noteq> ''[DONE]''
      \<and> json_parse rt (trim (drop 6 line)) = None
     \<longrightarrow> process_lines rt req (xs @ line # ys) = process_lines rt req (xs @ ys))
   \<and> (startsWith line ''data: '' \<and> trim (drop 6 line) \<noteq> ''[DONE]''
      \<and> json_parse rt (trim (drop 6 line)) = None
      \<and> CHR 0x0A \<notin> set line \<and> line_start a
      \<and> concat cs = a @ line @ CHR 0x0A # b \<and> concat cs' = a @ b
     \<longrightarrow> stream_start rt req (Some (map Chunk cs)) = stream_start rt req (Some (map Chunk cs')))
   \<and> (snd (stream_start rt req (Some reads)) = Errored \<longrightarrow> ReadError \<in> set reads)"
proof (intro conjI impI)
  assume "startsWith line ''data: '' \<and> trim (drop 6 line) \<noteq> ''[DONE]''
      \<and> json_parse rt (trim (drop 6 line)) = None"
  then show "process_lines rt req (xs @ line # ys) = process_lines rt req (xs @ ys)"
    by (simp add: malformed_line_skipped process_lines_skip)
next
  assume a: "startsWith line ''data: '' \<and> trim (drop 6 line) \<noteq> ''[DONE]''
      \<and> json_parse rt (trim (drop 6 line)) = None
      \<and> CHR 0x0A \<notin> set line \<and> line_start a
      \<and> concat cs = a @ line @ CHR 0x0A # b \<and> concat cs' = a @ b"
  then have skip: "process_line rt req line = ([], False)"
    by (simp add: malformed_line_skipped)
  have "\<exists>pre. butlast (split_nl (a @ line @ CHR 0x0A # b)) = pre @ line # butlast (split_nl b)
            \<and> butlast (split_nl (a @ b)) = pre @ butlast (split_nl b)"
  proof (cases "a = []")
    case True
    have "butlast (split_nl (a @ line @ CHR 0x0A # b)) = [] @ line # butlast (split_nl b)
        \<and> butlast (split_nl (a @ b)) = [] @ butlast (split_nl b)"
      using a True split_nl_nonempty [of b]
      by (simp add: split_nl_at_newline split_nl_no_newline)
    then show ?thesis by blast
  next
    case False
    with a have "last a = CHR 0x0A" by (simp add: line_start_def)
    with False obtain a' where a': "a = a' @ [CHR 0x0A]"
      by (metis append_butlast_last_id)
    have "butlast (split_nl (a @ line @ CHR 0x0A # b))
            = split_nl a' @ line # butlast (split_nl b)
        \<and> butlast (split_nl (a @ b)) = split_nl a' @ butlast (split_nl b)"
      using a split_nl_nonempty [of b]
      by (simp add: a' split_nl_at_newline split_nl_no_newline butlast_append)
    then show ?thesis by blast
  qed
  then obtain pre where pre:
      "butlast (split_nl (a @ line @ CHR 0x0A # b)) = pre @ line # butlast (split_nl b)"
      "butlast (split_nl (a @ b)) = pre @ butlast (split_nl b)"
    by blast
  have "read_loop rt req [] (map Chunk cs) = read_loop rt req [] (map Chunk cs')"
    using a by (simp add: read_loop_chunks pre process_lines_skip [OF skip])
  then show "stream_start rt req (Some (map Chunk cs)) = stream_start rt req (Some (map Chunk cs'))"
    by (simp add: stream_start_def processStream_def)
next
  assume "snd (stream_start rt req (Some reads)) = Errored"
  then have "snd (read_loop rt req [] reads) = Errored"
    by (simp add: stream_start_def processStream_def split_def)
  then show "ReadError \<in> set reads" by (rule read_loop_errored)
qed

text \<open>
  The witness: the cut-off line between a content fragment and a finish chunk, and a stream
  whose second read fails.
\<close>

theorem C9_malformed_line_skipped_witness:
  "startsWith broken_line ''data: '' \<and> trim (drop 6 broken_line) \<noteq> ''[DONE]''
   \<and> json_parse sample_runtime (trim (drop 6 broken_line)) = None
   \<and> process_lines sample_runtime sample_request [delta_line, broken_line, finish_line]
     = process_lines sample_runtime sample_request [delta_line, finish_line]
   \<and> line_start (delta_line @ [CHR 0x0A])
   \<and> stream_start sample_runtime sample_request
       (Some (map Chunk [delta_line @ [CHR 0x0A] @ broken_line, CHR 0x0A # finish_line,
                         [CHR 0x0A]]))
     = stream_start sample_runtime sample_request
       (Some (map Chunk [delta_line @ [CHR 0x0A], finish_line @ [CHR 0x0A]]))
   \<and> snd (stream_start sample_runtime sample_request (Some [Chunk delta_line, ReadError]))
     = Errored"
proof -
  have nl: "CHR 0x0A \<notin> set delta_line" by (simp add: delta_line_def)
  have e: "snd (stream_start sample_runtime sample_request (Some [Chunk delta_line, ReadError]))
     = Errored"
    using nl by (simp add: stream_start_def processStream_def split_nl_no_newline split_def)
  from C9_malformed_line_skipped [of broken_line sample_runtime sample_request
      "[delta_line]" "[finish_line]" "delta_line @ [CHR 0x0A]"
      "[delta_line @ [CHR 0x0A] @ broken_line, CHR 0x0A # finish_line, [CHR 0x0A]]"
      "finish_line @ [CHR 0x0A]"
      "[delta_line @ [CHR 0x0A], finish_line @ [CHR 0x0A]]"
      "[Chunk delta_line, ReadError]"]
    sample_broken_line e
  show ?thesis by (simp add: line_start_def)
qed

section \<open>Same-provider requests\<close>



text \<open>
  Outside those statuses \<open>handleClaudeProxy\<close> has no response of its own: building one
  throws, as for a provider answer 204 with an empty text.
\<close>

lemma handleClaudeProxy_null_body_status:
  "handleClaudeProxy sample_runtime (\<lambda>call. Inr \<lparr>up_status = 204, up_body = None\<rparr>)
     sample_http_request
   = ([\<lparr>url = ''https://api.anthropic.com/v1/messages'', out_authorization = ''Bearer k'',
        out_body = req_body sample_http_request\<rparr>],
      Inl TypeError)"
  by (simp add: handleClaudeProxy_def JSON_parse_def get_prop_def Let_def new_Response_def
      null_body_status_def response_text_def sample_http_request_def sample_runtime_def
      sample_parse_def)


end
